theory Spec2Isabelle
  imports Complex_Main "HOL-Library.Sublist"
begin

section \<open>Common values\<close>

text \<open>
  The exceptions of \<^verbatim>\<open>video_service.py\<close> that the modelled functions raise. Every
  \<^verbatim>\<open>raise\<close> of the source is an \<open>Inl\<close> branch of the model. \<open>MediaError\<close> stands for
  any exception raised inside the media library (MoviePy and its image backends).
\<close>

datatype error = ValueError | ZeroDivisionError | MediaError

text \<open>
  Python numbers of the source are modelled exactly: \<^verbatim>\<open>int\<close> as \<open>int\<close>, \<^verbatim>\<open>float\<close> as
  \<open>rat\<close> (seconds, ratios and gains are read as exact rationals; rounding of binary
  floating point is not modelled). \<^verbatim>\<open>int(x)\<close> truncates towards zero.
\<close>

definition py_int :: "rat \<Rightarrow> int" where
  "py_int x = (if x < 0 then - \<lfloor>- x\<rfloor> else \<lfloor>x\<rfloor>)"

definition py_truediv :: "rat \<Rightarrow> rat \<Rightarrow> error + rat" where
  "py_truediv a b = (if b = 0 then Inl ZeroDivisionError else Inr (a / b))"

section \<open>Configuration tables\<close>

text \<open>\<^verbatim>\<open>VIDEO_RESOLUTIONS\<close>: resolution name to \<open>(width, height)\<close>.\<close>

definition VIDEO_RESOLUTIONS :: "(string \<times> (int \<times> int)) list" where
  "VIDEO_RESOLUTIONS =
    [(''480p'', (854, 480)),
     (''720p'', (1280, 720)),
     (''1080p'', (1920, 1080)),
     (''2k'', (2560, 1440)),
     (''4k'', (3840, 2160))]"

text \<open>\<^verbatim>\<open>VIDEO_LAYOUTS\<close>: layout name to its \<^verbatim>\<open>"ratio"\<close> entry (the display name is not used by
  any computation).\<close>

definition VIDEO_LAYOUTS :: "(string \<times> (int \<times> int)) list" where
  "VIDEO_LAYOUTS =
    [(''9:16'', (9, 16)),
     (''3:4'', (3, 4)),
     (''1:1'', (1, 1)),
     (''4:3'', (4, 3)),
     (''16:9'', (16, 9)),
     (''21:9'', (21, 9))]"

section \<open>Canvas size\<close>

text \<open>
  \<^verbatim>\<open>calculate_video_size(resolution, layout)\<close>. The two membership tests raise
  \<^verbatim>\<open>ValueError\<close>; the size is computed from the base height, truncated by \<^verbatim>\<open>int\<close> and
  then moved up to the next even number.
\<close>

definition make_even :: "int \<Rightarrow> int" where
  "make_even n = (if n mod 2 = 0 then n else n + 1)"

definition calculate_video_size :: "string \<Rightarrow> string \<Rightarrow> error + (int \<times> int)" where
  "calculate_video_size resolution layout =
    (case map_of VIDEO_RESOLUTIONS resolution of
       None \<Rightarrow> Inl ValueError
     | Some base \<Rightarrow>
        (case map_of VIDEO_LAYOUTS layout of
           None \<Rightarrow> Inl ValueError
         | Some (ratio_w, ratio_h) \<Rightarrow>
            (let (width, height) =
               (if ratio_w \<ge> ratio_h
                then (let height = snd base
                      in (py_int (of_int (height * ratio_w) / of_int ratio_h), height))
                else (let width = snd base
                      in (width, py_int (of_int (width * ratio_h) / of_int ratio_w))))
             in Inr (make_even width, make_even height))))"

text \<open>The relative error of \<open>width / height\<close> against the layout's ratio, as the property
  test of the repository computes it.\<close>

definition ratio_error :: "int \<times> int \<Rightarrow> int \<times> int \<Rightarrow> rat" where
  "ratio_error sz ratio =
    (let expected = of_int (fst ratio) / of_int (snd ratio);
         actual_ratio = of_int (fst sz) / of_int (snd sz)
     in \<bar>actual_ratio - expected\<bar> / expected)"

text \<open>The property of one output size, for a base table entry and a layout ratio.\<close>

definition size_ok :: "int \<times> int \<Rightarrow> int \<times> int \<Rightarrow> int \<times> int \<Rightarrow> bool" where
  "size_ok base ratio sz \<longleftrightarrow>
     0 < fst sz \<and> 0 < snd sz \<and> even (fst sz) \<and> even (snd sz) \<and>
     ratio_error sz ratio < 1 / 100 \<and>
     (fst ratio < snd ratio \<longrightarrow> fst sz = snd base)"

definition size_check :: "string \<times> (int \<times> int) \<Rightarrow> string \<times> (int \<times> int) \<Rightarrow> bool" where
  "size_check r l =
    (case calculate_video_size (fst r) (fst l) of
       Inl _ \<Rightarrow> False
     | Inr sz \<Rightarrow> size_ok (snd r) (snd l) sz)"


section \<open>Task status response\<close>

text \<open>
  Python values that end up in dictionaries: \<^verbatim>\<open>None\<close>, booleans, integers, floats and
  strings.
\<close>

datatype pyval = PNone | PBool bool | PInt int | PFloat rat | PStr string

text \<open>Truthiness of an optional string (\<^verbatim>\<open>if s:\<close>): \<^verbatim>\<open>None\<close> and \<^verbatim>\<open>""\<close> are false.\<close>

definition truthy :: "string option \<Rightarrow> bool" where
  "truthy s = (case s of None \<Rightarrow> False | Some t \<Rightarrow> t \<noteq> [])"

definition TASK_STATUS_PENDING :: int where "TASK_STATUS_PENDING = 0"
definition TASK_STATUS_PROCESSING :: int where "TASK_STATUS_PROCESSING = 1"
definition TASK_STATUS_COMPLETED :: int where "TASK_STATUS_COMPLETED = 2"
definition TASK_STATUS_FAILED :: int where "TASK_STATUS_FAILED = 3"

definition TASK_STATUS_NAMES :: "(int \<times> string) list" where
  "TASK_STATUS_NAMES =
    [(TASK_STATUS_PENDING, ''pending''),
     (TASK_STATUS_PROCESSING, ''processing''),
     (TASK_STATUS_COMPLETED, ''completed''),
     (TASK_STATUS_FAILED, ''failed'')]"

definition get_task_status_name :: "int \<Rightarrow> string" where
  "get_task_status_name status_code =
    (case map_of TASK_STATUS_NAMES status_code of Some n \<Rightarrow> n | None \<Rightarrow> ''unknown'')"

text \<open>
  The default messages of \<^verbatim>\<open>build_task_status_response\<close> are Chinese text; they are given
  here as their UTF-8 bytes, in the order pending, processing, completed, failed, and the
  fallback for an unknown status code.
\<close>

definition default_messages :: "(int \<times> string) list" where
  "default_messages =
    [(TASK_STATUS_PENDING,
        map char_of [0xE7, 0xAD, 0x89, 0xE5, 0xBE, 0x85, 0xE5, 0xA4, 0x84, 0xE7, 0x90, 0x86,
                     0x2E, 0x2E, 0x2E :: nat]),
     (TASK_STATUS_PROCESSING,
        map char_of [0xE6, 0xAD, 0xA3, 0xE5, 0x9C, 0xA8, 0xE5, 0xA4, 0x84, 0xE7, 0x90, 0x86,
                     0x2E, 0x2E, 0x2E :: nat]),
     (TASK_STATUS_COMPLETED,
        map char_of [0xE8, 0xA7, 0x86, 0xE9, 0xA2, 0x91, 0xE7, 0x94, 0x9F, 0xE6, 0x88, 0x90,
                     0xE5, 0xAE, 0x8C, 0xE6, 0x88, 0x90 :: nat]),
     (TASK_STATUS_FAILED,
        map char_of [0xE8, 0xA7, 0x86, 0xE9, 0xA2, 0x91, 0xE7, 0x94, 0x9F, 0xE6, 0x88, 0x90,
                     0xE5, 0xA4, 0xB1, 0xE8, 0xB4, 0xA5 :: nat])]"

definition unknown_status_message :: string where
  "unknown_status_message =
     map char_of [0xE6, 0x9C, 0xAA, 0xE7, 0x9F, 0xA5, 0xE7, 0x8A, 0xB6, 0xE6, 0x80, 0x81 :: nat]"

text \<open>\<^verbatim>\<open>class TaskStatusResponse\<close>: the constructor stores its arguments.\<close>

record TaskStatusResponse =
  status :: string
  progress :: int
  message :: string
  download_url :: "string option"
  error_message :: "string option"
  duration :: "rat option"
  task_id :: "string option"

text \<open>\<^verbatim>\<open>TaskStatusResponse.to_dict\<close>: the serialized response, a dictionary from keys to
  values.\<close>

definition to_dict :: "TaskStatusResponse \<Rightarrow> (string \<rightharpoonup> pyval)" where
  "to_dict self =
    (let result = [''status'' \<mapsto> PStr (status self),
                   ''progress'' \<mapsto> PInt (progress self),
                   ''message'' \<mapsto> PStr (message self)];
         result = (case task_id self of
                     Some t \<Rightarrow> if t \<noteq> [] then result(''task_id'' \<mapsto> PStr t) else result
                   | None \<Rightarrow> result);
         result = (if status self = ''completed''
                   then (let result = (case download_url self of
                                  Some u \<Rightarrow> if u \<noteq> [] then result(''download_url'' \<mapsto> PStr u)
                                            else result
                                | None \<Rightarrow> result)
                         in (case duration self of
                               Some d \<Rightarrow> result(''duration'' \<mapsto> PFloat d)
                             | None \<Rightarrow> result))
                   else result);
         result = (if status self = ''failed''
                   then (case error_message self of
                           Some e \<Rightarrow> if e \<noteq> [] then result(''error_message'' \<mapsto> PStr e)
                                     else result
                         | None \<Rightarrow> result)
                   else result)
     in result)"

text \<open>\<^verbatim>\<open>build_task_status_response\<close>.\<close>

definition build_task_status_response ::
  "int \<Rightarrow> int \<Rightarrow> string option \<Rightarrow> string option \<Rightarrow> string option \<Rightarrow> rat option \<Rightarrow>
   string option \<Rightarrow> TaskStatusResponse" where
  "build_task_status_response status_code progress0 progress_message error_message0
     download_url0 duration0 task_id0 =
    (let status_name = get_task_status_name status_code;
         progress1 = max 0 (min 100 progress0);
         progress_message1 =
           (if \<not> truthy progress_message
            then (case map_of default_messages status_code of
                    Some m \<Rightarrow> m | None \<Rightarrow> unknown_status_message)
            else (case progress_message of Some m \<Rightarrow> m | None \<Rightarrow> []));
         progress2 = (if status_code = TASK_STATUS_COMPLETED then 100 else progress1);
         progress3 = (if status_code = TASK_STATUS_FAILED then 0 else progress2)
     in \<lparr>status = status_name,
         progress = progress3,
         message = progress_message1,
         download_url = (if status_code = TASK_STATUS_COMPLETED then download_url0 else None),
         error_message = (if status_code = TASK_STATUS_FAILED then error_message0 else None),
         duration = (if status_code = TASK_STATUS_COMPLETED then duration0 else None),
         task_id = task_id0\<rparr>)"

section \<open>Configuration defaults\<close>

text \<open>The default constants of the module, as Python values.\<close>

definition VIDEO_RESOLUTION_DEFAULT :: pyval where "VIDEO_RESOLUTION_DEFAULT = PStr ''1080p''"
definition VIDEO_LAYOUT_DEFAULT :: pyval where "VIDEO_LAYOUT_DEFAULT = PStr ''9:16''"
definition VIDEO_FPS_DEFAULT :: pyval where "VIDEO_FPS_DEFAULT = PInt 30"
definition FIT_MODE_DEFAULT :: pyval where "FIT_MODE_DEFAULT = PStr ''crop''"
definition TRANSITION_TYPE_DEFAULT :: pyval where "TRANSITION_TYPE_DEFAULT = PStr ''fade''"
definition TRANSITION_DURATION_DEFAULT :: rat where "TRANSITION_DURATION_DEFAULT = 1 / 2"
definition BRIGHTNESS_DEFAULT :: rat where "BRIGHTNESS_DEFAULT = 1"
definition CONTRAST_DEFAULT :: rat where "CONTRAST_DEFAULT = 1"
definition SATURATION_DEFAULT :: rat where "SATURATION_DEFAULT = 1"
definition COLOR_FILTER_DEFAULT :: pyval where "COLOR_FILTER_DEFAULT = PStr ''none''"
definition EFFECT_TYPE_DEFAULT :: pyval where "EFFECT_TYPE_DEFAULT = PNone"
definition BGM_VOLUME_DEFAULT :: rat where "BGM_VOLUME_DEFAULT = 3 / 10"
definition BGM_FADE_IN_DEFAULT :: rat where "BGM_FADE_IN_DEFAULT = 0"
definition BGM_FADE_OUT_DEFAULT :: rat where "BGM_FADE_OUT_DEFAULT = 0"
definition CLIP_MIN_DURATION_DEFAULT :: rat where "CLIP_MIN_DURATION_DEFAULT = 3"
definition CLIP_MAX_DURATION_DEFAULT :: rat where "CLIP_MAX_DURATION_DEFAULT = 10"
definition SUBTITLE_FONT_DEFAULT :: pyval where "SUBTITLE_FONT_DEFAULT = PStr ''Heiti-SC-Medium''"
definition SUBTITLE_SIZE_DEFAULT :: pyval where "SUBTITLE_SIZE_DEFAULT = PInt 48"
definition SUBTITLE_COLOR_DEFAULT :: pyval where "SUBTITLE_COLOR_DEFAULT = PStr ''#FFFFFF''"
definition SUBTITLE_STROKE_COLOR_DEFAULT :: pyval where
  "SUBTITLE_STROKE_COLOR_DEFAULT = PStr ''#000000''"
definition SUBTITLE_STROKE_WIDTH_DEFAULT :: rat where "SUBTITLE_STROKE_WIDTH_DEFAULT = 2"
definition SUBTITLE_POSITION_DEFAULT :: pyval where "SUBTITLE_POSITION_DEFAULT = PStr ''bottom''"
definition OUTPUT_QUALITY_DEFAULT :: pyval where "OUTPUT_QUALITY_DEFAULT = PStr ''high''"

text \<open>\<^verbatim>\<open>config.get(key, default)\<close> on a dictionary.\<close>

definition dict_get :: "(string \<rightharpoonup> pyval) \<Rightarrow> string \<Rightarrow> pyval \<Rightarrow> pyval" where
  "dict_get config key dflt = (case config key of Some v \<Rightarrow> v | None \<Rightarrow> dflt)"

text \<open>
  The dictionary literal that \<^verbatim>\<open>get_config_with_defaults\<close> builds, entry by entry in the
  order of the source.
\<close>

definition result_items :: "(string \<rightharpoonup> pyval) \<Rightarrow> (string \<times> pyval) list" where
  "result_items config =
    [(''video_resolution'', dict_get config ''video_resolution'' VIDEO_RESOLUTION_DEFAULT),
     (''video_layout'', dict_get config ''video_layout'' VIDEO_LAYOUT_DEFAULT),
     (''video_fps'', dict_get config ''video_fps'' VIDEO_FPS_DEFAULT),
     (''fit_mode'', dict_get config ''fit_mode'' FIT_MODE_DEFAULT),
     (''transition_type'', dict_get config ''transition_type'' TRANSITION_TYPE_DEFAULT),
     (''transition_duration'',
        dict_get config ''transition_duration'' (PFloat TRANSITION_DURATION_DEFAULT)),
     (''transition_enabled'', dict_get config ''transition_enabled'' (PBool True)),
     (''brightness'', dict_get config ''brightness'' (PFloat BRIGHTNESS_DEFAULT)),
     (''contrast'', dict_get config ''contrast'' (PFloat CONTRAST_DEFAULT)),
     (''saturation'', dict_get config ''saturation'' (PFloat SATURATION_DEFAULT)),
     (''color_filter'', dict_get config ''color_filter'' COLOR_FILTER_DEFAULT),
     (''effect_type'', dict_get config ''effect_type'' EFFECT_TYPE_DEFAULT),
     (''bgm_volume'', dict_get config ''bgm_volume'' (PFloat BGM_VOLUME_DEFAULT)),
     (''bgm_fade_in'', dict_get config ''bgm_fade_in'' (PFloat BGM_FADE_IN_DEFAULT)),
     (''bgm_fade_out'', dict_get config ''bgm_fade_out'' (PFloat BGM_FADE_OUT_DEFAULT)),
     (''bgm_enabled'', dict_get config ''bgm_enabled'' (PBool False)),
     (''clip_min_duration'',
        dict_get config ''clip_min_duration'' (PFloat CLIP_MIN_DURATION_DEFAULT)),
     (''clip_max_duration'',
        dict_get config ''clip_max_duration'' (PFloat CLIP_MAX_DURATION_DEFAULT)),
     (''subtitle_enabled'', dict_get config ''subtitle_enabled'' (PBool True)),
     (''subtitle_font'', dict_get config ''subtitle_font'' SUBTITLE_FONT_DEFAULT),
     (''subtitle_size'', dict_get config ''subtitle_size'' SUBTITLE_SIZE_DEFAULT),
     (''subtitle_color'', dict_get config ''subtitle_color'' SUBTITLE_COLOR_DEFAULT),
     (''subtitle_stroke_color'',
        dict_get config ''subtitle_stroke_color'' SUBTITLE_STROKE_COLOR_DEFAULT),
     (''subtitle_stroke_width'',
        dict_get config ''subtitle_stroke_width'' (PFloat SUBTITLE_STROKE_WIDTH_DEFAULT)),
     (''subtitle_position'', dict_get config ''subtitle_position'' SUBTITLE_POSITION_DEFAULT),
     (''output_quality'', dict_get config ''output_quality'' OUTPUT_QUALITY_DEFAULT)]"

text \<open>The keys of that literal with their defaults, as a table.\<close>

definition config_defaults :: "(string \<times> pyval) list" where
  "config_defaults =
    [(''video_resolution'', VIDEO_RESOLUTION_DEFAULT),
     (''video_layout'', VIDEO_LAYOUT_DEFAULT),
     (''video_fps'', VIDEO_FPS_DEFAULT),
     (''fit_mode'', FIT_MODE_DEFAULT),
     (''transition_type'', TRANSITION_TYPE_DEFAULT),
     (''transition_duration'', PFloat TRANSITION_DURATION_DEFAULT),
     (''transition_enabled'', PBool True),
     (''brightness'', PFloat BRIGHTNESS_DEFAULT),
     (''contrast'', PFloat CONTRAST_DEFAULT),
     (''saturation'', PFloat SATURATION_DEFAULT),
     (''color_filter'', COLOR_FILTER_DEFAULT),
     (''effect_type'', EFFECT_TYPE_DEFAULT),
     (''bgm_volume'', PFloat BGM_VOLUME_DEFAULT),
     (''bgm_fade_in'', PFloat BGM_FADE_IN_DEFAULT),
     (''bgm_fade_out'', PFloat BGM_FADE_OUT_DEFAULT),
     (''bgm_enabled'', PBool False),
     (''clip_min_duration'', PFloat CLIP_MIN_DURATION_DEFAULT),
     (''clip_max_duration'', PFloat CLIP_MAX_DURATION_DEFAULT),
     (''subtitle_enabled'', PBool True),
     (''subtitle_font'', SUBTITLE_FONT_DEFAULT),
     (''subtitle_size'', SUBTITLE_SIZE_DEFAULT),
     (''subtitle_color'', SUBTITLE_COLOR_DEFAULT),
     (''subtitle_stroke_color'', SUBTITLE_STROKE_COLOR_DEFAULT),
     (''subtitle_stroke_width'', PFloat SUBTITLE_STROKE_WIDTH_DEFAULT),
     (''subtitle_position'', SUBTITLE_POSITION_DEFAULT),
     (''output_quality'', OUTPUT_QUALITY_DEFAULT)]"

text \<open>
  \<^verbatim>\<open>get_config_with_defaults(config)\<close>. \<^verbatim>\<open>None\<close> stands for the empty dictionary. The
  final loop copies every key of \<^verbatim>\<open>config\<close> that the literal does not have; on a
  dictionary read as a map from keys to values this is: the literal's entry where there is
  one, the entry of \<^verbatim>\<open>config\<close> otherwise.
\<close>

definition get_config_with_defaults :: "(string \<rightharpoonup> pyval) option \<Rightarrow> (string \<rightharpoonup> pyval)" where
  "get_config_with_defaults config0 =
    (let config = (case config0 of None \<Rightarrow> Map.empty | Some c \<Rightarrow> c);
         result = map_of (result_items config)
     in (\<lambda>key. case result key of Some v \<Rightarrow> Some v | None \<Rightarrow> config key))"

section \<open>Media library\<close>

text \<open>
  The source drives MoviePy 1.x (\<^verbatim>\<open>from moviepy.editor import ...\<close>). A clip is modelled
  by the attributes the claims are about: its pixel size, its start on the timeline of an
  enclosing composition and its duration; \<^verbatim>\<open>clip.end\<close> is \<open>start + duration\<close>. The
  operations below state what each library call does to these attributes. Calls that only
  change pixels, masks or positions leave them as they are.
\<close>

record clip =
  clip_size :: "int \<times> int"
  clip_start :: rat
  clip_duration :: rat

definition clip_end :: "clip \<Rightarrow> rat" where
  "clip_end c = clip_start c + clip_duration c"

text \<open>\<^verbatim>\<open>ColorClip(size=..., color=..., duration=...)\<close>: a fresh clip starts at 0.\<close>

definition ColorClip :: "int \<times> int \<Rightarrow> rat \<Rightarrow> clip" where
  "ColorClip sz d = \<lparr>clip_size = sz, clip_start = 0, clip_duration = d\<rparr>"

text \<open>
  The library's \<^verbatim>\<open>resizer\<close> rescales the frames to an integer size and the new clip takes
  the size of its first frame. No image backend produces an empty image: a width or height
  below 1 raises inside the library.
\<close>

definition resizer :: "clip \<Rightarrow> int \<times> int \<Rightarrow> error + clip" where
  "resizer c newsize =
    (if fst newsize \<le> 0 \<or> snd newsize \<le> 0 then Inl MediaError
     else Inr (c\<lparr>clip_size := newsize\<rparr>))"

text \<open>\<^verbatim>\<open>clip.resize(newsize=(w, h))\<close>.\<close>

definition resize_newsize :: "clip \<Rightarrow> int \<times> int \<Rightarrow> error + clip" where
  "resize_newsize c newsize = resizer c newsize"

text \<open>\<^verbatim>\<open>clip.resize(height=h)\<close>: the new size is \<^verbatim>\<open>[w * height / h, height]\<close>, truncated.\<close>

definition resize_height :: "clip \<Rightarrow> int \<Rightarrow> error + clip" where
  "resize_height c height =
    (let (w, h) = clip_size c
     in case py_truediv (of_int (w * height)) (of_int h) of
          Inl e \<Rightarrow> Inl e
        | Inr q \<Rightarrow> resizer c (py_int q, height))"

text \<open>\<^verbatim>\<open>clip.resize(width=w)\<close>: the new size is \<^verbatim>\<open>[width, h * width / w]\<close>, truncated.\<close>

definition resize_width :: "clip \<Rightarrow> int \<Rightarrow> error + clip" where
  "resize_width c width =
    (let (w, h) = clip_size c
     in case py_truediv (of_int (h * width)) (of_int w) of
          Inl e \<Rightarrow> Inl e
        | Inr q \<Rightarrow> resizer c (width, py_int q))"

text \<open>
  The length of the array slice \<^verbatim>\<open>a[i:j]\<close> of an axis of length \<open>n\<close>: negative indices
  count from the end, and both ends are clipped to the axis.
\<close>

definition py_slice_len :: "int \<Rightarrow> int \<Rightarrow> int \<Rightarrow> int" where
  "py_slice_len n i j =
    (let a = (if i < 0 then max 0 (i + n) else min i n);
         b = (if j < 0 then max 0 (j + n) else min j n)
     in max 0 (b - a))"

text \<open>
  \<^verbatim>\<open>clip.crop(x1=..., y1=..., x2=..., y2=...)\<close> slices every frame as
  \<^verbatim>\<open>pic[int(y1):int(y2), int(x1):int(x2)]\<close>, after \<^verbatim>\<open>x2 = x2 or clip.size[0]\<close> and
  \<^verbatim>\<open>y2 = y2 or clip.size[1]\<close> (a zero end means the full axis).
\<close>

definition crop :: "clip \<Rightarrow> int \<Rightarrow> int \<Rightarrow> int \<Rightarrow> int \<Rightarrow> clip" where
  "crop c x1 y1 x2 y2 =
    (let (w, h) = clip_size c;
         x2' = (if x2 = 0 then w else x2);
         y2' = (if y2 = 0 then h else y2)
     in c\<lparr>clip_size := (py_slice_len w x1 x2', py_slice_len h y1 y2')\<rparr>)"

text \<open>\<^verbatim>\<open>set_position\<close>, \<^verbatim>\<open>crossfadein\<close> and \<^verbatim>\<open>crossfadeout\<close> change the position and the
  mask only.\<close>

definition set_position :: "clip \<Rightarrow> clip" where
  "set_position c = c"

definition crossfadein :: "clip \<Rightarrow> rat \<Rightarrow> clip" where
  "crossfadein c d = c"

definition crossfadeout :: "clip \<Rightarrow> rat \<Rightarrow> clip" where
  "crossfadeout c d = c"

text \<open>\<^verbatim>\<open>set_start(t)\<close> moves the clip (its end moves with it); \<^verbatim>\<open>set_duration(d)\<close> sets the
  duration (and the end).\<close>

definition set_start :: "clip \<Rightarrow> rat \<Rightarrow> clip" where
  "set_start c t = c\<lparr>clip_start := t\<rparr>"

definition set_duration :: "clip \<Rightarrow> rat \<Rightarrow> clip" where
  "set_duration c d = c\<lparr>clip_duration := d\<rparr>"

text \<open>
  \<^verbatim>\<open>CompositeVideoClip(clips, size=None)\<close>, for the non-empty list \<open>c # cs\<close>: the size is
  the given one or that of the first clip, and the duration is the largest end of the
  layers.
\<close>

definition CompositeVideoClip :: "clip \<Rightarrow> clip list \<Rightarrow> (int \<times> int) option \<Rightarrow> clip" where
  "CompositeVideoClip c cs sz =
    \<lparr>clip_size = (case sz of Some s \<Rightarrow> s | None \<Rightarrow> clip_size c),
     clip_start = 0,
     clip_duration = fold max (map clip_end cs) (clip_end c)\<rparr>"

text \<open>
  \<^verbatim>\<open>concatenate_videoclips(clips)\<close> (method \<^verbatim>\<open>chain\<close>): the clips play one after the other;
  the size is the largest width and the largest height. An empty list raises
  (\<^verbatim>\<open>max\<close> of an empty sequence).
\<close>

fun concatenate_videoclips :: "clip list \<Rightarrow> error + clip" where
  "concatenate_videoclips [] = Inl ValueError"
| "concatenate_videoclips (c # cs) =
     Inr \<lparr>clip_size = (fold max (map (fst \<circ> clip_size) cs) (fst (clip_size c)),
                       fold max (map (snd \<circ> clip_size) cs) (snd (clip_size c))),
          clip_start = 0,
          clip_duration = sum_list (map clip_duration (c # cs))\<rparr>"

section \<open>Media adaptation\<close>

definition FIT_MODES :: "string list" where
  "FIT_MODES = [''crop'', ''fit'', ''stretch'']"

text \<open>\<^verbatim>\<open>adapt_media_crop(clip, target_size)\<close>.\<close>

definition adapt_media_crop :: "clip \<Rightarrow> int \<times> int \<Rightarrow> error + clip" where
  "adapt_media_crop clip0 target_size =
    (let (target_w, target_h) = target_size;
         (clip_w, clip_h) = clip_size clip0
     in case py_truediv (of_int target_w) (of_int target_h) of
          Inl e \<Rightarrow> Inl e
        | Inr target_ratio \<Rightarrow>
     (case py_truediv (of_int clip_w) (of_int clip_h) of
          Inl e \<Rightarrow> Inl e
        | Inr clip_ratio \<Rightarrow>
      if \<bar>clip_ratio - target_ratio\<bar> < 1 / 100 then resize_newsize clip0 target_size
      else if clip_ratio > target_ratio then
        (let new_h = target_h;
             new_w = py_int (of_int clip_w * (of_int target_h / of_int clip_h))
         in case resize_height clip0 new_h of
              Inl e \<Rightarrow> Inl e
            | Inr clip1 \<Rightarrow>
                (let x_start = (new_w - target_w) div 2
                 in Inr (crop clip1 x_start 0 (x_start + target_w) target_h)))
      else
        (let new_w = target_w;
             new_h = py_int (of_int clip_h * (of_int target_w / of_int clip_w))
         in case resize_width clip0 new_w of
              Inl e \<Rightarrow> Inl e
            | Inr clip1 \<Rightarrow>
                (let y_start = (new_h - target_h) div 2
                 in Inr (crop clip1 0 y_start target_w (y_start + target_h))))))"

text \<open>\<^verbatim>\<open>adapt_media_fit(clip, target_size, bg_color)\<close>; the background colour is not an
  attribute of the model. The source also computes \<^verbatim>\<open>new_w\<close> and \<^verbatim>\<open>new_h\<close> here, which it
  does not use; the resize computes the same quotient and raises on the same zero
  divisor.\<close>

definition adapt_media_fit :: "clip \<Rightarrow> int \<times> int \<Rightarrow> error + clip" where
  "adapt_media_fit clip0 target_size =
    (let (target_w, target_h) = target_size;
         (clip_w, clip_h) = clip_size clip0
     in case py_truediv (of_int target_w) (of_int target_h) of
          Inl e \<Rightarrow> Inl e
        | Inr target_ratio \<Rightarrow>
     (case py_truediv (of_int clip_w) (of_int clip_h) of
          Inl e \<Rightarrow> Inl e
        | Inr clip_ratio \<Rightarrow>
      (case (if clip_ratio > target_ratio
             then resize_width clip0 target_w
             else resize_height clip0 target_h) of
         Inl e \<Rightarrow> Inl e
       | Inr clip1 \<Rightarrow>
           (let bg = ColorClip target_size (clip_duration clip1);
                clip2 = set_position clip1
            in Inr (CompositeVideoClip bg [clip2] (Some target_size))))))"

text \<open>\<^verbatim>\<open>adapt_media_stretch(clip, target_size)\<close>.\<close>

definition adapt_media_stretch :: "clip \<Rightarrow> int \<times> int \<Rightarrow> error + clip" where
  "adapt_media_stretch clip0 target_size = resize_newsize clip0 target_size"

text \<open>\<^verbatim>\<open>adapt_media_to_size(clip, target_size, fit_mode)\<close>.\<close>

definition adapt_media_to_size :: "clip \<Rightarrow> int \<times> int \<Rightarrow> string \<Rightarrow> error + clip" where
  "adapt_media_to_size clip0 target_size fit_mode =
    (if fit_mode \<notin> set FIT_MODES then Inl ValueError
     else if fit_mode = ''crop'' then adapt_media_crop clip0 target_size
     else if fit_mode = ''fit'' then adapt_media_fit clip0 target_size
     else if fit_mode = ''stretch'' then adapt_media_stretch clip0 target_size
     else Inr clip0)"

section \<open>Transitions\<close>

text \<open>The keys of \<^verbatim>\<open>TRANSITIONS\<close> (names and default durations are not used by the
  functions below).\<close>

definition TRANSITIONS :: "string list" where
  "TRANSITIONS =
    [''none'', ''fade'', ''slide_left'', ''slide_right'', ''slide_up'', ''slide_down'',
     ''zoom_in'', ''zoom_out'', ''dissolve'', ''wipe_left'', ''wipe_right'']"

definition TRANSITION_DURATION_MIN :: rat where "TRANSITION_DURATION_MIN = 3 / 10"
definition TRANSITION_DURATION_MAX :: rat where "TRANSITION_DURATION_MAX = 2"

definition validate_transition_duration :: "rat \<Rightarrow> error + rat" where
  "validate_transition_duration d =
    (if d < TRANSITION_DURATION_MIN \<or> d > TRANSITION_DURATION_MAX then Inl ValueError
     else Inr d)"

definition validate_transition_type :: "string \<Rightarrow> error + string" where
  "validate_transition_type transition_type =
    (if transition_type \<notin> set TRANSITIONS then Inl ValueError else Inr transition_type)"

text \<open>\<^verbatim>\<open>apply_fade_transition(clip1, clip2, duration)\<close>.\<close>

definition apply_fade_transition :: "clip \<Rightarrow> clip \<Rightarrow> rat \<Rightarrow> clip" where
  "apply_fade_transition clip1 clip2 duration0 =
    (let duration = (if clip_duration clip1 \<le> duration0
                     then clip_duration clip1 * (1 / 2) else duration0);
         clip1_fadeout = crossfadeout clip1 duration;
         clip2_fadein = crossfadein clip2 duration;
         clip2_positioned = set_start clip2_fadein (clip_duration clip1 - duration)
     in CompositeVideoClip clip1_fadeout [clip2_positioned] None)"

text \<open>\<^verbatim>\<open>apply_slide_transition(clip1, clip2, direction, duration)\<close>; the direction only
  selects the position functions.\<close>

definition apply_slide_transition :: "clip \<Rightarrow> clip \<Rightarrow> string \<Rightarrow> rat \<Rightarrow> clip" where
  "apply_slide_transition clip1 clip2 direction duration0 =
    (let (width, height) = clip_size clip1;
         duration = (if clip_duration clip1 \<le> duration0
                     then clip_duration clip1 * (1 / 2) else duration0);
         clip1_sliding = set_position clip1;
         clip2_sliding = set_position (set_start clip2 0);
         total_duration = clip_duration clip1 + clip_duration clip2 - duration
     in set_duration (CompositeVideoClip clip1_sliding [clip2_sliding] (Some (width, height)))
          total_duration)"

text \<open>\<^verbatim>\<open>apply_zoom_transition(clip1, clip2, direction, duration)\<close>: the two frame functions
  are defined but not used, the composition is the cross-fade.\<close>

definition apply_zoom_transition :: "clip \<Rightarrow> clip \<Rightarrow> string \<Rightarrow> rat \<Rightarrow> clip" where
  "apply_zoom_transition clip1 clip2 direction duration0 =
    (let duration = (if clip_duration clip1 \<le> duration0
                     then clip_duration clip1 * (1 / 2) else duration0);
         clip1_fadeout = crossfadeout clip1 duration;
         clip2_fadein = crossfadein clip2 duration;
         clip2_positioned = set_start clip2_fadein (clip_duration clip1 - duration)
     in CompositeVideoClip clip1_fadeout [clip2_positioned] None)"

definition apply_dissolve_transition :: "clip \<Rightarrow> clip \<Rightarrow> rat \<Rightarrow> clip" where
  "apply_dissolve_transition clip1 clip2 dur = apply_fade_transition clip1 clip2 dur"

text \<open>\<^verbatim>\<open>apply_wipe_transition(clip1, clip2, direction, duration)\<close>: the mask function is
  defined but not used; the reduced duration is passed on to the cross-fade.\<close>

definition apply_wipe_transition :: "clip \<Rightarrow> clip \<Rightarrow> string \<Rightarrow> rat \<Rightarrow> clip" where
  "apply_wipe_transition clip1 clip2 direction duration0 =
    (let duration = (if clip_duration clip1 \<le> duration0
                     then clip_duration clip1 * (1 / 2) else duration0)
     in apply_fade_transition clip1 clip2 duration)"

text \<open>\<^verbatim>\<open>transition_type.split("_")[1]\<close> for a type that starts with a word of \<open>n\<close> letters
  and an underscore: the text up to the next underscore.\<close>

definition direction_of :: "nat \<Rightarrow> string \<Rightarrow> string" where
  "direction_of n transition_type = takeWhile (\<lambda>ch. ch \<noteq> CHR ''_'') (drop (Suc n) transition_type)"

text \<open>\<^verbatim>\<open>apply_transition(clip1, clip2, transition_type, duration)\<close>.\<close>

definition apply_transition :: "clip \<Rightarrow> clip \<Rightarrow> string \<Rightarrow> rat \<Rightarrow> error + clip" where
  "apply_transition clip1 clip2 transition_type dur =
    (case validate_transition_type transition_type of
       Inl e \<Rightarrow> Inl e
     | Inr _ \<Rightarrow>
    (case (if transition_type \<noteq> ''none'' then validate_transition_duration dur
           else Inr dur) of
       Inl e \<Rightarrow> Inl e
     | Inr _ \<Rightarrow>
       if transition_type = ''none'' then concatenate_videoclips [clip1, clip2]
       else if transition_type = ''fade'' then Inr (apply_fade_transition clip1 clip2 dur)
       else if prefix ''slide_'' transition_type
         then Inr (apply_slide_transition clip1 clip2 (direction_of 5 transition_type) dur)
       else if prefix ''zoom_'' transition_type
         then Inr (apply_zoom_transition clip1 clip2 (direction_of 4 transition_type) dur)
       else if transition_type = ''dissolve''
         then Inr (apply_dissolve_transition clip1 clip2 dur)
       else if prefix ''wipe_'' transition_type
         then Inr (apply_wipe_transition clip1 clip2 (direction_of 4 transition_type) dur)
       else concatenate_videoclips [clip1, clip2]))"

text \<open>The loop of \<^verbatim>\<open>apply_transitions_to_clips\<close>: \<open>result\<close> is joined with each further
  clip in turn; an exception ends it.\<close>

fun transitions_loop :: "clip \<Rightarrow> clip list \<Rightarrow> string \<Rightarrow> rat \<Rightarrow> error + clip" where
  "transitions_loop result [] transition_type dur = Inr result"
| "transitions_loop result (c # cs) transition_type dur =
     (case apply_transition result c transition_type dur of
        Inl e \<Rightarrow> Inl e
      | Inr r \<Rightarrow> transitions_loop r cs transition_type dur)"

text \<open>\<^verbatim>\<open>apply_transitions_to_clips(clips, transition_type, duration)\<close>.\<close>

fun apply_transitions_to_clips :: "clip list \<Rightarrow> string \<Rightarrow> rat \<Rightarrow> error + clip" where
  "apply_transitions_to_clips [] transition_type dur = Inl ValueError"
| "apply_transitions_to_clips [c] transition_type dur = Inr c"
| "apply_transitions_to_clips (c # cs) transition_type dur =
     (case validate_transition_type transition_type of
        Inl e \<Rightarrow> Inl e
      | Inr _ \<Rightarrow>
     (case (if transition_type \<noteq> ''none'' then validate_transition_duration dur
            else Inr dur) of
        Inl e \<Rightarrow> Inl e
      | Inr _ \<Rightarrow> transitions_loop c cs transition_type dur))"

section \<open>Audio mixing\<close>

text \<open>
  An audio clip of the media library, by its start, its duration, the gain applied to it
  and the lengths of its fade-in and fade-out.
\<close>

record audio_clip =
  audio_start :: rat
  audio_duration :: rat
  audio_gain :: rat
  audio_fade_in :: rat
  audio_fade_out :: rat

definition audio_end :: "audio_clip \<Rightarrow> rat" where
  "audio_end a = audio_start a + audio_duration a"

text \<open>
  \<^verbatim>\<open>clip.subclip(t_start, t_end)\<close> of the library: a negative time counts from the end of
  the clip, a start beyond the end raises, and the new duration is \<open>t_end - t_start\<close>.
\<close>

definition subclip :: "audio_clip \<Rightarrow> rat \<Rightarrow> rat \<Rightarrow> error + audio_clip" where
  "subclip a t_start0 t_end0 =
    (let t_start = (if t_start0 < 0 then audio_duration a + t_start0 else t_start0)
     in if t_start > audio_duration a then Inl ValueError
        else (let t_end = (if t_end0 < 0 then audio_duration a + t_end0 else t_end0)
              in Inr (a\<lparr>audio_duration := t_end - t_start\<rparr>)))"

text \<open>
  \<^verbatim>\<open>afx.audio_loop(clip, duration=d)\<close> of the library: \<^verbatim>\<open>int(d / clip.duration) + 1\<close> copies
  are concatenated (no copy at all raises) and the result is cut to \<open>d\<close>.
\<close>

definition audio_loop :: "audio_clip \<Rightarrow> rat \<Rightarrow> error + audio_clip" where
  "audio_loop a d =
    (case py_truediv d (audio_duration a) of
       Inl e \<Rightarrow> Inl e
     | Inr q \<Rightarrow>
        (let nloops = py_int q + 1
         in if nloops \<le> 0 then Inl ValueError
            else Inr (a\<lparr>audio_start := 0, audio_duration := d\<rparr>)))"

definition volumex :: "audio_clip \<Rightarrow> rat \<Rightarrow> audio_clip" where
  "volumex a factor = a\<lparr>audio_gain := audio_gain a * factor\<rparr>"

definition audio_fadein :: "audio_clip \<Rightarrow> rat \<Rightarrow> audio_clip" where
  "audio_fadein a d = a\<lparr>audio_fade_in := d\<rparr>"

definition audio_fadeout :: "audio_clip \<Rightarrow> rat \<Rightarrow> audio_clip" where
  "audio_fadeout a d = a\<lparr>audio_fade_out := d\<rparr>"

text \<open>\<^verbatim>\<open>CompositeAudioClip(clips)\<close> for the non-empty list \<open>a # as\<close>: the tracks are added
  and the duration is the largest end.\<close>

definition CompositeAudioClip :: "audio_clip \<Rightarrow> audio_clip list \<Rightarrow> audio_clip" where
  "CompositeAudioClip a as =
    \<lparr>audio_start = 0,
     audio_duration = fold max (map audio_end as) (audio_end a),
     audio_gain = 1, audio_fade_in = 0, audio_fade_out = 0\<rparr>"

definition BGM_FADE_IN_MIN :: rat where "BGM_FADE_IN_MIN = 0"
definition BGM_FADE_IN_MAX :: rat where "BGM_FADE_IN_MAX = 5"
definition BGM_FADE_OUT_MIN :: rat where "BGM_FADE_OUT_MIN = 0"
definition BGM_FADE_OUT_MAX :: rat where "BGM_FADE_OUT_MAX = 5"
definition BGM_VOLUME_MIN :: rat where "BGM_VOLUME_MIN = 0"
definition BGM_VOLUME_MAX :: rat where "BGM_VOLUME_MAX = 1"

definition validate_bgm_fade_in :: "rat \<Rightarrow> error + rat" where
  "validate_bgm_fade_in fade_in =
    (if fade_in < BGM_FADE_IN_MIN \<or> fade_in > BGM_FADE_IN_MAX then Inl ValueError
     else Inr fade_in)"

definition validate_bgm_fade_out :: "rat \<Rightarrow> error + rat" where
  "validate_bgm_fade_out fade_out =
    (if fade_out < BGM_FADE_OUT_MIN \<or> fade_out > BGM_FADE_OUT_MAX then Inl ValueError
     else Inr fade_out)"

definition validate_bgm_volume :: "rat \<Rightarrow> error + rat" where
  "validate_bgm_volume volume =
    (if volume < BGM_VOLUME_MIN \<or> volume > BGM_VOLUME_MAX then Inl ValueError
     else Inr volume)"

text \<open>\<^verbatim>\<open>apply_bgm_fade_effects(bgm_clip, fade_in, fade_out)\<close>.\<close>

definition apply_bgm_fade_effects :: "audio_clip \<Rightarrow> rat \<Rightarrow> rat \<Rightarrow> error + audio_clip" where
  "apply_bgm_fade_effects bgm_clip fade_in fade_out =
    (case validate_bgm_fade_in fade_in of
       Inl e \<Rightarrow> Inl e
     | Inr _ \<Rightarrow>
    (case validate_bgm_fade_out fade_out of
       Inl e \<Rightarrow> Inl e
     | Inr _ \<Rightarrow>
        (let result = bgm_clip;
             result = (if fade_in > 0 then audio_fadein result fade_in else result);
             result = (if fade_out > 0 then audio_fadeout result fade_out else result)
         in Inr result)))"

text \<open>The voice part of \<^verbatim>\<open>mix_audio_tracks\<close>: a voice longer than an explicit target is
  cut, a shorter one is kept as it is.\<close>

definition mix_voice :: "audio_clip \<Rightarrow> rat option \<Rightarrow> error + audio_clip" where
  "mix_voice voice target_duration =
    (case target_duration of
       None \<Rightarrow> Inr voice
     | Some t \<Rightarrow>
        if audio_duration voice \<noteq> t
        then (if audio_duration voice < t then Inr voice else subclip voice 0 t)
        else Inr voice)"

text \<open>The background part of \<^verbatim>\<open>mix_audio_tracks\<close>: loop or cut to the final duration,
  scale the volume, apply the fades.\<close>

definition mix_bgm :: "audio_clip \<Rightarrow> rat \<Rightarrow> rat \<Rightarrow> rat \<Rightarrow> rat \<Rightarrow> error + audio_clip" where
  "mix_bgm bgm0 final_duration bgm_volume bgm_fade_in bgm_fade_out =
    (case (if audio_duration bgm0 < final_duration then audio_loop bgm0 final_duration
           else if audio_duration bgm0 > final_duration then subclip bgm0 0 final_duration
           else Inr bgm0) of
       Inl e \<Rightarrow> Inl e
     | Inr bgm1 \<Rightarrow> apply_bgm_fade_effects (volumex bgm1 bgm_volume) bgm_fade_in bgm_fade_out)"

text \<open>\<^verbatim>\<open>mix_audio_tracks(voice_audio, bgm_audio, bgm_volume, bgm_fade_in, bgm_fade_out,
  target_duration)\<close>; \<^verbatim>\<open>None\<close> arguments and the \<^verbatim>\<open>None\<close> result are \<open>None\<close>.\<close>

definition mix_audio_tracks ::
  "audio_clip option \<Rightarrow> audio_clip option \<Rightarrow> rat \<Rightarrow> rat \<Rightarrow> rat \<Rightarrow> rat option \<Rightarrow>
   error + audio_clip option" where
  "mix_audio_tracks voice_audio bgm_audio bgm_volume bgm_fade_in bgm_fade_out target_duration =
    (case validate_bgm_volume bgm_volume of Inl e \<Rightarrow> Inl e | Inr _ \<Rightarrow>
    (case validate_bgm_fade_in bgm_fade_in of Inl e \<Rightarrow> Inl e | Inr _ \<Rightarrow>
    (case validate_bgm_fade_out bgm_fade_out of Inl e \<Rightarrow> Inl e | Inr _ \<Rightarrow>
    (case (case target_duration of
             Some t \<Rightarrow> Some t
           | None \<Rightarrow> (case voice_audio of
                         Some v \<Rightarrow> Some (audio_duration v)
                       | None \<Rightarrow> (case bgm_audio of
                                     Some b \<Rightarrow> Some (audio_duration b)
                                   | None \<Rightarrow> None))) of
       None \<Rightarrow> Inr None
     | Some final_duration \<Rightarrow>
    (case (case voice_audio of
             None \<Rightarrow> Inr []
           | Some v \<Rightarrow> (case mix_voice v target_duration of
                           Inl e \<Rightarrow> Inl e | Inr voice \<Rightarrow> Inr [voice])) of
       Inl e \<Rightarrow> Inl e
     | Inr voice_clips \<Rightarrow>
    (case (case bgm_audio of
             None \<Rightarrow> Inr voice_clips
           | Some b \<Rightarrow>
              (case mix_bgm b final_duration bgm_volume bgm_fade_in bgm_fade_out of
                 Inl e \<Rightarrow> Inl e | Inr bgm \<Rightarrow> Inr (voice_clips @ [bgm]))) of
       Inl e \<Rightarrow> Inl e
     | Inr audio_clips \<Rightarrow>
        (case audio_clips of
           [] \<Rightarrow> Inr None
         | [a] \<Rightarrow> Inr (Some a)
         | a # as \<Rightarrow> Inr (Some (CompositeAudioClip a as)))))))))"

section \<open>Precise subtitles\<close>








section \<open>Styling parameters of a render\<close>

definition COLOR_FILTERS :: "string list" where
  "COLOR_FILTERS =
    [''none'', ''grayscale'', ''vintage'', ''warm'', ''cool'', ''high_contrast'', ''soft'']"

definition EFFECT_TYPES :: "string list" where
  "EFFECT_TYPES =
    [''none'', ''ken_burns_in'', ''ken_burns_out'', ''shake'', ''zoom_in'', ''zoom_out'',
     ''pan_left'', ''pan_right'', ''pan_up'', ''pan_down'']"

definition BRIGHTNESS_MIN :: rat where "BRIGHTNESS_MIN = 1 / 2"
definition BRIGHTNESS_MAX :: rat where "BRIGHTNESS_MAX = 2"
definition CONTRAST_MIN :: rat where "CONTRAST_MIN = 1 / 2"
definition CONTRAST_MAX :: rat where "CONTRAST_MAX = 2"
definition SATURATION_MIN :: rat where "SATURATION_MIN = 0"
definition SATURATION_MAX :: rat where "SATURATION_MAX = 2"

text \<open>
  The styling keys of the \<^verbatim>\<open>config\<close> dictionary of \<^verbatim>\<open>create_video_from_config\<close>, typed
  as the request schema of the API types them (strings, floats, a boolean;
  \<^verbatim>\<open>effect_type\<close> is an optional string). \<open>None\<close> is a missing key; for \<^verbatim>\<open>effect_type\<close>,
  \<open>Some None\<close> is the key holding \<^verbatim>\<open>None\<close>.
\<close>

record styling_config =
  cfg_fit_mode :: "string option"
  cfg_transition_enabled :: "bool option"
  cfg_transition_type :: "string option"
  cfg_transition_duration :: "rat option"
  cfg_effect_type :: "string option option"
  cfg_color_filter :: "string option"
  cfg_brightness :: "rat option"
  cfg_contrast :: "rat option"
  cfg_saturation :: "rat option"

text \<open>The local variables of \<^verbatim>\<open>create_video_from_config\<close> that hold the styling after its
  checks.\<close>

record styling =
  st_fit_mode :: string
  st_transition_enabled :: bool
  st_transition_type :: string
  st_transition_duration :: rat
  st_effect_type :: "string option"
  st_color_filter :: string
  st_brightness :: rat
  st_contrast :: rat
  st_saturation :: rat

text \<open>\<^verbatim>\<open>config.get(key, default)\<close> on a typed key.\<close>

definition get_or :: "'a option \<Rightarrow> 'a \<Rightarrow> 'a" where
  "get_or v dflt = (case v of Some x \<Rightarrow> x | None \<Rightarrow> dflt)"

text \<open>
  The part of \<^verbatim>\<open>create_video_from_config\<close> that reads and checks the styling
  (\<^verbatim>\<open>fit_mode\<close> to \<^verbatim>\<open>saturation\<close>).
\<close>

definition styling_params :: "styling_config \<Rightarrow> styling" where
  "styling_params config =
    (let fit_mode0 = get_or (cfg_fit_mode config) ''crop'';
         fit_mode1 = (if fit_mode0 \<notin> set FIT_MODES then ''crop'' else fit_mode0);
         transition_enabled = get_or (cfg_transition_enabled config) True;
         transition_type0 = get_or (cfg_transition_type config) ''fade'';
         transition_duration0 =
           get_or (cfg_transition_duration config) TRANSITION_DURATION_DEFAULT;
         transition_type1 =
           (if transition_type0 \<notin> set TRANSITIONS then ''fade'' else transition_type0);
         transition_duration1 =
           (if transition_duration0 < TRANSITION_DURATION_MIN \<or>
               transition_duration0 > TRANSITION_DURATION_MAX
            then TRANSITION_DURATION_DEFAULT else transition_duration0);
         effect_type0 = get_or (cfg_effect_type config) (Some ''none'');
         color_filter0 = get_or (cfg_color_filter config) ''none'';
         brightness0 = get_or (cfg_brightness config) BRIGHTNESS_DEFAULT;
         contrast0 = get_or (cfg_contrast config) CONTRAST_DEFAULT;
         saturation0 = get_or (cfg_saturation config) SATURATION_DEFAULT;
         effect_type1 =
           (if truthy effect_type0 \<and> effect_type0 \<notin> Some ` set EFFECT_TYPES
            then Some ''none'' else effect_type0);
         color_filter1 =
           (if color_filter0 \<notin> set COLOR_FILTERS then ''none'' else color_filter0);
         brightness1 = max BRIGHTNESS_MIN (min BRIGHTNESS_MAX brightness0);
         contrast1 = max CONTRAST_MIN (min CONTRAST_MAX contrast0);
         saturation1 = max SATURATION_MIN (min SATURATION_MAX saturation0)
     in \<lparr>st_fit_mode = fit_mode1,
         st_transition_enabled = transition_enabled,
         st_transition_type = transition_type1,
         st_transition_duration = transition_duration1,
         st_effect_type = effect_type1,
         st_color_filter = color_filter1,
         st_brightness = brightness1,
         st_contrast = contrast1,
         st_saturation = saturation1\<rparr>)"

section \<open>Effects, filters and adjustments\<close>

definition validate_effect_type :: "string \<Rightarrow> error + string" where
  "validate_effect_type effect_type =
    (if effect_type \<notin> set EFFECT_TYPES then Inl ValueError else Inr effect_type)"

definition validate_color_filter :: "string \<Rightarrow> error + string" where
  "validate_color_filter filter_type =
    (if filter_type \<notin> set COLOR_FILTERS then Inl ValueError else Inr filter_type)"

definition validate_brightness :: "rat \<Rightarrow> error + rat" where
  "validate_brightness brightness =
    (if brightness < BRIGHTNESS_MIN \<or> brightness > BRIGHTNESS_MAX then Inl ValueError
     else Inr brightness)"

definition validate_contrast :: "rat \<Rightarrow> error + rat" where
  "validate_contrast contrast =
    (if contrast < CONTRAST_MIN \<or> contrast > CONTRAST_MAX then Inl ValueError
     else Inr contrast)"

definition validate_saturation :: "rat \<Rightarrow> error + rat" where
  "validate_saturation saturation =
    (if saturation < SATURATION_MIN \<or> saturation > SATURATION_MAX then Inl ValueError
     else Inr saturation)"

text \<open>
  The frame transforms themselves (Ken Burns, shake, pan, the colour filters, the combined
  brightness, contrast and saturation function) run inside the media library on pixel
  arrays, and any of them may raise. They are parameters of the model: a function from the
  clip to a clip or an exception.

  \<^verbatim>\<open>apply_video_effect(clip, effect_type, duration)\<close>: the type is validated, \<^verbatim>\<open>none\<close>
  returns the clip, every other type runs its transform.
\<close>

definition apply_video_effect ::
  "(string \<Rightarrow> clip \<Rightarrow> rat \<Rightarrow> error + clip) \<Rightarrow> clip \<Rightarrow> string \<Rightarrow> rat \<Rightarrow> error + clip" where
  "apply_video_effect effect_impl clip0 effect_type dur =
    (case validate_effect_type effect_type of
       Inl e \<Rightarrow> Inl e
     | Inr _ \<Rightarrow>
        if effect_type = ''none'' then Inr clip0 else effect_impl effect_type clip0 dur)"

text \<open>\<^verbatim>\<open>apply_color_filter(clip, filter_type)\<close>.\<close>

definition apply_color_filter ::
  "(string \<Rightarrow> clip \<Rightarrow> error + clip) \<Rightarrow> clip \<Rightarrow> string \<Rightarrow> error + clip" where
  "apply_color_filter filter_impl clip0 filter_type =
    (case validate_color_filter filter_type of
       Inl e \<Rightarrow> Inl e
     | Inr _ \<Rightarrow>
        if filter_type = ''none'' then Inr clip0 else filter_impl filter_type clip0)"

text \<open>\<^verbatim>\<open>apply_video_adjustments(clip, brightness, contrast, saturation)\<close>.\<close>

definition apply_video_adjustments ::
  "(rat \<Rightarrow> rat \<Rightarrow> rat \<Rightarrow> clip \<Rightarrow> error + clip) \<Rightarrow> clip \<Rightarrow> rat \<Rightarrow> rat \<Rightarrow> rat \<Rightarrow> error + clip"
  where
  "apply_video_adjustments adjust_impl clip0 brightness contrast saturation =
    (case validate_brightness brightness of Inl e \<Rightarrow> Inl e | Inr _ \<Rightarrow>
    (case validate_contrast contrast of Inl e \<Rightarrow> Inl e | Inr _ \<Rightarrow>
    (case validate_saturation saturation of Inl e \<Rightarrow> Inl e | Inr _ \<Rightarrow>
       if brightness = 1 \<and> contrast = 1 \<and> saturation = 1 then Inr clip0
       else adjust_impl brightness contrast saturation clip0)))"

section \<open>Styling and composing the segments of a render\<close>

text \<open>
  The steps of \<^verbatim>\<open>create_video_from_config\<close> that transform a segment, each with its
  \<^verbatim>\<open>try: ... except Exception: pass\<close>. The effect is applied to image segments only.
\<close>

definition segment_effect ::
  "(string \<Rightarrow> clip \<Rightarrow> rat \<Rightarrow> error + clip) \<Rightarrow> string option \<Rightarrow> rat \<Rightarrow> clip \<Rightarrow> clip" where
  "segment_effect effect_impl effect_type seg_duration clip0 =
    (case effect_type of
       None \<Rightarrow> clip0
     | Some e \<Rightarrow>
        if e \<noteq> [] \<and> e \<noteq> ''none''
        then (case apply_video_effect effect_impl clip0 e seg_duration of
                Inl _ \<Rightarrow> clip0
              | Inr c \<Rightarrow> c)
        else clip0)"

definition segment_filter :: "(string \<Rightarrow> clip \<Rightarrow> error + clip) \<Rightarrow> string \<Rightarrow> clip \<Rightarrow> clip" where
  "segment_filter filter_impl color_filter clip0 =
    (if color_filter \<noteq> [] \<and> color_filter \<noteq> ''none''
     then (case apply_color_filter filter_impl clip0 color_filter of
             Inl _ \<Rightarrow> clip0
           | Inr c \<Rightarrow> c)
     else clip0)"

definition segment_adjust ::
  "(rat \<Rightarrow> rat \<Rightarrow> rat \<Rightarrow> clip \<Rightarrow> error + clip) \<Rightarrow> rat \<Rightarrow> rat \<Rightarrow> rat \<Rightarrow> clip \<Rightarrow> clip" where
  "segment_adjust adjust_impl brightness contrast saturation clip0 =
    (if brightness \<noteq> 1 \<or> contrast \<noteq> 1 \<or> saturation \<noteq> 1
     then (case apply_video_adjustments adjust_impl clip0 brightness contrast saturation of
             Inl _ \<Rightarrow> clip0
           | Inr c \<Rightarrow> c)
     else clip0)"

text \<open>
  The composition step: a blank clip for no segment, the segment itself for one, and for
  more the transitions, with the plain concatenation when they raise or are switched off.
  The call of \<^verbatim>\<open>apply_transitions_to_clips\<close> is the parameter \<open>transitions\<close>, since
  it may raise inside the media library as well.
\<close>

definition compose_clips ::
  "(clip list \<Rightarrow> string \<Rightarrow> rat \<Rightarrow> error + clip) \<Rightarrow> clip list \<Rightarrow> int \<times> int \<Rightarrow> bool \<Rightarrow> string \<Rightarrow>
   rat \<Rightarrow> rat \<Rightarrow> error + clip" where
  "compose_clips transitions video_clips sz transition_enabled transition_type
     transition_duration total_duration =
    (if video_clips = [] then Inr (ColorClip sz total_duration)
     else if length video_clips = 1 then Inr (hd video_clips)
     else if transition_enabled \<and> transition_type \<noteq> ''none''
       then (case transitions video_clips transition_type transition_duration of
               Inl _ \<Rightarrow> concatenate_videoclips video_clips
             | Inr c \<Rightarrow> Inr c)
     else concatenate_videoclips video_clips)"
section \<open>Canvas size: results\<close>

text \<open>All thirty table entries, checked by evaluation.\<close>

lemma all_sizes: "list_all (\<lambda>r. list_all (size_check r) VIDEO_LAYOUTS) VIDEO_RESOLUTIONS"
  by code_simp

lemma size_check_tables:
  assumes "map_of VIDEO_RESOLUTIONS resolution = Some base"
    and "map_of VIDEO_LAYOUTS layout = Some ratio"
  shows "size_check (resolution, base) (layout, ratio)"
proof -
  have r: "(resolution, base) \<in> set VIDEO_RESOLUTIONS"
    by (rule map_of_SomeD [OF assms(1)])
  have l: "(layout, ratio) \<in> set VIDEO_LAYOUTS"
    by (rule map_of_SomeD [OF assms(2)])
  from all_sizes r have "list_all (size_check (resolution, base)) VIDEO_LAYOUTS"
    unfolding list_all_iff by blast
  with l show ?thesis
    unfolding list_all_iff by blast
qed

text \<open>
  Claim C1. For every resolution of \<^verbatim>\<open>VIDEO_RESOLUTIONS\<close> and every layout of
  \<^verbatim>\<open>VIDEO_LAYOUTS\<close>, \<^verbatim>\<open>calculate_video_size\<close> returns a pair of positive even integers
  whose ratio is within 1% (relative error) of the layout's ratio; for a portrait layout
  (ratio width below ratio height) the output width is the base table's height value.
\<close>

theorem calculate_video_size_correct:
  assumes "map_of VIDEO_RESOLUTIONS resolution = Some base"
    and "map_of VIDEO_LAYOUTS layout = Some ratio"
  shows "\<exists>width height.
           calculate_video_size resolution layout = Inr (width, height) \<and>
           0 < width \<and> 0 < height \<and> even width \<and> even height \<and>
           ratio_error (width, height) ratio < 1 / 100 \<and>
           (fst ratio < snd ratio \<longrightarrow> width = snd base)"
proof -
  from size_check_tables [OF assms]
  obtain sz where "calculate_video_size resolution layout = Inr sz" "size_ok base ratio sz"
    by (auto simp: size_check_def split: sum.splits)
  then show ?thesis
    by (cases sz) (auto simp: size_ok_def)
qed

theorem calculate_video_size_correct_witness:
  "map_of VIDEO_RESOLUTIONS ''1080p'' = Some (1920, 1080) \<and>
   map_of VIDEO_LAYOUTS ''9:16'' = Some (9, 16) \<and>
   calculate_video_size ''1080p'' ''9:16'' = Inr (1080, 1920) \<and>
   ratio_error (1080, 1920) (9, 16) < 1 / 100"
proof -
  have r: "map_of VIDEO_RESOLUTIONS ''1080p'' = Some (1920, 1080)"
    by code_simp
  have l: "map_of VIDEO_LAYOUTS ''9:16'' = Some (9, 16)"
    by code_simp
  have c: "calculate_video_size ''1080p'' ''9:16'' = Inr (1080, 1920)"
    by code_simp
  from calculate_video_size_correct [OF r l] c
  have "ratio_error (1080, 1920) (9, 16) < 1 / 100"
    by simp
  with r l c show ?thesis by simp
qed


section \<open>Task status response: results\<close>

lemma status_completed_iff:
  "get_task_status_name c = ''completed'' \<longleftrightarrow> c = TASK_STATUS_COMPLETED"
  by (simp add: get_task_status_name_def TASK_STATUS_NAMES_def TASK_STATUS_PENDING_def
      TASK_STATUS_PROCESSING_def TASK_STATUS_COMPLETED_def TASK_STATUS_FAILED_def)

lemma status_failed_iff:
  "get_task_status_name c = ''failed'' \<longleftrightarrow> c = TASK_STATUS_FAILED"
  by (simp add: get_task_status_name_def TASK_STATUS_NAMES_def TASK_STATUS_PENDING_def
      TASK_STATUS_PROCESSING_def TASK_STATUS_COMPLETED_def TASK_STATUS_FAILED_def)

lemma build_status:
  "status (build_task_status_response c p m e u d t) = get_task_status_name c"
  by (simp add: build_task_status_response_def Let_def)

lemma build_progress_range:
  "0 \<le> progress (build_task_status_response c p m e u d t) \<and>
   progress (build_task_status_response c p m e u d t) \<le> 100"
  by (simp add: build_task_status_response_def Let_def)

lemma build_progress_completed:
  "progress (build_task_status_response TASK_STATUS_COMPLETED p m e u d t) = 100"
  by (simp add: build_task_status_response_def Let_def TASK_STATUS_COMPLETED_def
      TASK_STATUS_FAILED_def)

lemma build_progress_failed:
  "progress (build_task_status_response TASK_STATUS_FAILED p m e u d t) = 0"
  by (simp add: build_task_status_response_def Let_def)

lemma to_dict_download_url:
  "''download_url'' \<in> dom (to_dict r) \<Longrightarrow> status r = ''completed''"
  by (auto simp: to_dict_def Let_def split: option.splits if_splits)

lemma to_dict_duration:
  "''duration'' \<in> dom (to_dict r) \<Longrightarrow> status r = ''completed''"
  by (auto simp: to_dict_def Let_def split: option.splits if_splits)

lemma to_dict_error_message:
  "''error_message'' \<in> dom (to_dict r) \<Longrightarrow> status r = ''failed''"
  by (auto simp: to_dict_def Let_def split: option.splits if_splits)

lemma to_dict_progress: "to_dict r ''progress'' = Some (PInt (progress r))"
  by (auto simp: to_dict_def Let_def split: option.splits if_splits)

lemma to_dict_status: "to_dict r ''status'' = Some (PStr (status r))"
  by (auto simp: to_dict_def Let_def split: option.splits if_splits)

text \<open>
  Claim C7. For every status code and every integer progress input, the response built by
  \<^verbatim>\<open>build_task_status_response\<close> has its progress within \<open>[0, 100]\<close>; a completed status
  forces the progress to 100 and a failed status forces it to 0; and the serialized
  response (\<^verbatim>\<open>to_dict\<close>, which carries that progress and status) contains
  \<^verbatim>\<open>download_url\<close> and \<^verbatim>\<open>duration\<close> only when the status is completed and
  \<^verbatim>\<open>error_message\<close> only when the status is failed.
\<close>

theorem build_task_status_response_invariant:
  fixes status_code p :: int
  shows "let r = build_task_status_response status_code p msg err url dur tid;
             d = to_dict r
         in 0 \<le> progress r \<and> progress r \<le> 100 \<and>
            d ''progress'' = Some (PInt (progress r)) \<and>
            d ''status'' = Some (PStr (status r)) \<and>
            (status r = ''completed'' \<longleftrightarrow> status_code = TASK_STATUS_COMPLETED) \<and>
            (status r = ''failed'' \<longleftrightarrow> status_code = TASK_STATUS_FAILED) \<and>
            (status r = ''completed'' \<longrightarrow> progress r = 100) \<and>
            (status r = ''failed'' \<longrightarrow> progress r = 0) \<and>
            (''download_url'' \<in> dom d \<longrightarrow> status r = ''completed'') \<and>
            (''duration'' \<in> dom d \<longrightarrow> status r = ''completed'') \<and>
            (''error_message'' \<in> dom d \<longrightarrow> status r = ''failed'')"
proof -
  define r where "r = build_task_status_response status_code p msg err url dur tid"
  have s: "status r = get_task_status_name status_code"
    unfolding r_def by (rule build_status)
  have range: "0 \<le> progress r \<and> progress r \<le> 100"
    unfolding r_def by (rule build_progress_range)
  have c: "status r = ''completed'' \<longrightarrow> progress r = 100"
    unfolding r_def using build_progress_completed
    by (simp add: build_status status_completed_iff)
  have f: "status r = ''failed'' \<longrightarrow> progress r = 0"
    unfolding r_def using build_progress_failed
    by (simp add: build_status status_failed_iff)
  have d: "(''download_url'' \<in> dom (to_dict r) \<longrightarrow> status r = ''completed'') \<and>
           (''duration'' \<in> dom (to_dict r) \<longrightarrow> status r = ''completed'') \<and>
           (''error_message'' \<in> dom (to_dict r) \<longrightarrow> status r = ''failed'')"
    using to_dict_download_url to_dict_duration to_dict_error_message by blast
  from s range c f d show ?thesis
    unfolding Let_def r_def [symmetric]
    by (simp add: to_dict_progress to_dict_status status_completed_iff status_failed_iff)
qed

theorem build_task_status_response_invariant_witness:
  "status (build_task_status_response 2 250 None (Some ''boom'') (Some ''/d/1.mp4'')
      (Some 6) None) = ''completed'' \<and>
   progress (build_task_status_response 2 250 None (Some ''boom'') (Some ''/d/1.mp4'')
      (Some 6) None) = 100 \<and>
   ''download_url'' \<in> dom (to_dict (build_task_status_response 2 250 None (Some ''boom'')
      (Some ''/d/1.mp4'') (Some 6) None)) \<and>
   ''duration'' \<in> dom (to_dict (build_task_status_response 2 250 None (Some ''boom'')
      (Some ''/d/1.mp4'') (Some 6) None)) \<and>
   status (build_task_status_response 3 (- 7) None (Some ''boom'') (Some ''/d/1.mp4'')
      (Some 6) None) = ''failed'' \<and>
   progress (build_task_status_response 3 (- 7) None (Some ''boom'') (Some ''/d/1.mp4'')
      (Some 6) None) = 0 \<and>
   ''error_message'' \<in> dom (to_dict (build_task_status_response 3 (- 7) None (Some ''boom'')
      (Some ''/d/1.mp4'') (Some 6) None))"
  using build_task_status_response_invariant
          [of 2 250 None "Some ''boom''" "Some ''/d/1.mp4''" "Some 6" None]
        build_task_status_response_invariant
          [of 3 "- 7" None "Some ''boom''" "Some ''/d/1.mp4''" "Some 6" None]
  by (simp add: Let_def build_task_status_response_def to_dict_def get_task_status_name_def
      TASK_STATUS_NAMES_def TASK_STATUS_PENDING_def TASK_STATUS_PROCESSING_def
      TASK_STATUS_COMPLETED_def TASK_STATUS_FAILED_def)

section \<open>Configuration defaults: results\<close>

lemma result_items_table:
  "result_items c = map (\<lambda>(k, d). (k, dict_get c k d)) config_defaults"
  by (simp add: result_items_def config_defaults_def)

lemma map_of_keyed_map:
  "map_of (map (\<lambda>(k, d). (k, f k d)) xs) key = map_option (f key) (map_of xs key)"
  by (induction xs) auto

lemma result_lookup:
  "map_of (result_items c) key = map_option (dict_get c key) (map_of config_defaults key)"
  unfolding result_items_table by (rule map_of_keyed_map)

lemma get_config_with_defaults_lookup:
  "get_config_with_defaults (Some c) key =
     (case map_of config_defaults key of
        Some d \<Rightarrow> Some (dict_get c key d)
      | None \<Rightarrow> c key)"
  by (simp add: get_config_with_defaults_def result_lookup split: option.splits)

lemma get_config_with_defaults_None:
  "get_config_with_defaults None = get_config_with_defaults (Some Map.empty)"
  by (simp add: get_config_with_defaults_def)

text \<open>
  Claim C8. \<^verbatim>\<open>get_config_with_defaults\<close> is idempotent: for every input configuration
  (\<^verbatim>\<open>None\<close> included), applying it to its own output yields the same dictionary.
\<close>

theorem get_config_with_defaults_idempotent:
  "get_config_with_defaults (Some (get_config_with_defaults c)) = get_config_with_defaults c"
proof -
  have step: "get_config_with_defaults (Some (get_config_with_defaults (Some m))) =
              get_config_with_defaults (Some m)" for m
  proof (rule ext)
    fix key
    show "get_config_with_defaults (Some (get_config_with_defaults (Some m))) key =
          get_config_with_defaults (Some m) key"
      by (cases "map_of config_defaults key")
         (simp_all add: get_config_with_defaults_lookup dict_get_def)
  qed
  show ?thesis
  proof (cases c)
    case None
    then show ?thesis
      using step [of Map.empty] by (simp add: get_config_with_defaults_None)
  next
    case (Some m)
    then show ?thesis
      using step [of m] by simp
  qed
qed

lemma c8_example:
  "get_config_with_defaults (Some [''brightness'' \<mapsto> PFloat 3, ''script'' \<mapsto> PStr ''hi''])
     ''brightness'' = Some (PFloat 3) \<and>
   get_config_with_defaults (Some [''brightness'' \<mapsto> PFloat 3, ''script'' \<mapsto> PStr ''hi''])
     ''script'' = Some (PStr ''hi'') \<and>
   get_config_with_defaults None ''fit_mode'' = Some (PStr ''crop'') \<and>
   get_config_with_defaults None ''script'' = None"
  by (simp add: get_config_with_defaults_lookup get_config_with_defaults_None
      config_defaults_def dict_get_def FIT_MODE_DEFAULT_def)

section \<open>Media adaptation: results\<close>

lemma py_int_nonneg: "0 \<le> x \<Longrightarrow> py_int x = \<lfloor>x\<rfloor>"
  by (simp add: py_int_def)

lemma slice_inner:
  assumes "0 \<le> a" and "0 < t" and "a + t \<le> n"
  shows "py_slice_len n a (a + t) = t"
  using assms by (simp add: py_slice_len_def Let_def)

lemma slice_full: "0 < n \<Longrightarrow> py_slice_len n 0 n = n"
  by (simp add: py_slice_len_def Let_def)

text \<open>Scaling the wider side of a clip that is wider than the target covers the target.\<close>

lemma scaled_covers:
  fixes a b s t :: int
  assumes b: "0 < b" and t: "0 < t"
    and wider: "(of_int s :: rat) / of_int t < of_int a / of_int b"
  shows "s \<le> \<lfloor>(of_int (a * t) :: rat) / of_int b\<rfloor>"
proof -
  have "(of_int s :: rat) * of_int b < of_int a * of_int t"
    using wider b t by (simp add: field_simps)
  then have "(of_int s :: rat) \<le> of_int (a * t) / of_int b"
    using b by (simp add: field_simps)
  then show ?thesis
    by (simp add: le_floor_iff)
qed

lemma resize_height_ok:
  assumes "clip_size c = (w, h)" and "0 < h" and "0 < height"
    and "0 < py_int (of_int (w * height) / of_int h)"
  shows "resize_height c height =
           Inr (c\<lparr>clip_size := (py_int (of_int (w * height) / of_int h), height)\<rparr>)"
  using assms by (simp add: resize_height_def py_truediv_def resizer_def)

lemma resize_width_ok:
  assumes "clip_size c = (w, h)" and "0 < w" and "0 < width"
    and "0 < py_int (of_int (h * width) / of_int w)"
  shows "resize_width c width =
           Inr (c\<lparr>clip_size := (width, py_int (of_int (h * width) / of_int w))\<rparr>)"
  using assms by (simp add: resize_width_def py_truediv_def resizer_def)

lemma crop_inner:
  assumes "0 \<le> x" "0 < tw" "x + tw \<le> W" "0 \<le> y" "0 < th" "y + th \<le> H"
    and "clip_size c = (W, H)"
  shows "clip_size (crop c x y (x + tw) (y + th)) = (tw, th)"
proof -
  have "x + tw \<noteq> 0" "y + th \<noteq> 0"
    using assms by simp_all
  then show ?thesis
    using assms slice_inner [of x tw W] slice_inner [of y th H]
    by (simp add: crop_def)
qed

lemma crop_wider:
  assumes pos: "0 < cw" "0 < ch" "0 < tw" "0 < th"
    and sz: "clip_size c = (cw, ch)"
    and wider: "(of_int tw :: rat) / of_int th < of_int cw / of_int ch"
    and far: "\<not> \<bar>(of_int cw :: rat) / of_int ch - of_int tw / of_int th\<bar> < 1 / 100"
  shows "\<exists>c'. adapt_media_crop c (tw, th) = Inr c' \<and> clip_size c' = (tw, th)"
proof -
  define W where "W = py_int (of_int (cw * th) / of_int ch)"
  have q: "(0::rat) \<le> of_int (cw * th) / of_int ch"
    using pos by simp
  have "tw \<le> \<lfloor>(of_int (cw * th) :: rat) / of_int ch\<rfloor>"
    by (rule scaled_covers [OF pos(2) pos(4) wider])
  then have W: "tw \<le> W"
    unfolding W_def py_int_nonneg [OF q] .
  then have Wpos: "0 < W"
    using pos by simp
  have r: "resize_height c th = Inr (c\<lparr>clip_size := (W, th)\<rparr>)"
    unfolding W_def
    by (rule resize_height_ok [OF sz pos(2) pos(4)]) (use Wpos in \<open>simp add: W_def\<close>)
  have n: "py_int ((of_int cw :: rat) * (of_int th / of_int ch)) = W"
    by (simp add: W_def)
  define x where "x = (W - tw) div 2"
  have x: "0 \<le> x" "x + tw \<le> W"
    using W by (simp_all add: x_def)
  have "clip_size (crop (c\<lparr>clip_size := (W, th)\<rparr>) x 0 (x + tw) (0 + th)) = (tw, th)"
    by (rule crop_inner [OF x(1) pos(3) x(2) _ pos(4)]) simp_all
  moreover have "adapt_media_crop c (tw, th) =
      Inr (crop (c\<lparr>clip_size := (W, th)\<rparr>) x 0 (x + tw) (0 + th))"
    using pos sz wider far r n
    by (simp add: adapt_media_crop_def py_truediv_def Let_def x_def)
  ultimately show ?thesis by simp
qed

lemma crop_taller:
  assumes pos: "0 < cw" "0 < ch" "0 < tw" "0 < th"
    and sz: "clip_size c = (cw, ch)"
    and taller: "\<not> (of_int tw :: rat) / of_int th < of_int cw / of_int ch"
    and far: "\<not> \<bar>(of_int cw :: rat) / of_int ch - of_int tw / of_int th\<bar> < 1 / 100"
  shows "\<exists>c'. adapt_media_crop c (tw, th) = Inr c' \<and> clip_size c' = (tw, th)"
proof -
  have "(of_int cw :: rat) / of_int ch < of_int tw / of_int th"
    using taller far by (simp add: abs_if split: if_splits)
  then have "(of_int cw :: rat) * of_int th < of_int tw * of_int ch"
    using pos by (simp add: field_simps)
  then have inv: "(of_int th :: rat) / of_int tw < of_int ch / of_int cw"
    using pos by (simp add: field_simps)
  define H where "H = py_int (of_int (ch * tw) / of_int cw)"
  have q: "(0::rat) \<le> of_int (ch * tw) / of_int cw"
    using pos by simp
  have "th \<le> \<lfloor>(of_int (ch * tw) :: rat) / of_int cw\<rfloor>"
    by (rule scaled_covers [OF pos(1) pos(3) inv])
  then have H: "th \<le> H"
    unfolding H_def py_int_nonneg [OF q] .
  then have Hpos: "0 < H"
    using pos by simp
  have r: "resize_width c tw = Inr (c\<lparr>clip_size := (tw, H)\<rparr>)"
    unfolding H_def
    by (rule resize_width_ok [OF sz pos(1) pos(3)]) (use Hpos in \<open>simp add: H_def\<close>)
  have n: "py_int ((of_int ch :: rat) * (of_int tw / of_int cw)) = H"
    by (simp add: H_def)
  define y where "y = (H - th) div 2"
  have y: "0 \<le> y" "y + th \<le> H"
    using H by (simp_all add: y_def)
  have "clip_size (crop (c\<lparr>clip_size := (tw, H)\<rparr>) 0 y (0 + tw) (y + th)) = (tw, th)"
    by (rule crop_inner [OF _ pos(3) _ y(1) pos(4) y(2)]) simp_all
  moreover have "adapt_media_crop c (tw, th) =
      Inr (crop (c\<lparr>clip_size := (tw, H)\<rparr>) 0 y (0 + tw) (y + th))"
    using pos sz taller far r n
    by (simp add: adapt_media_crop_def py_truediv_def Let_def y_def)
  ultimately show ?thesis by simp
qed

lemma crop_near:
  assumes pos: "0 < ch" "0 < tw" "0 < th"
    and sz: "clip_size c = (cw, ch)"
    and near: "\<bar>(of_int cw :: rat) / of_int ch - of_int tw / of_int th\<bar> < 1 / 100"
  shows "\<exists>c'. adapt_media_crop c (tw, th) = Inr c' \<and> clip_size c' = (tw, th)"
  using assms
  by (simp add: adapt_media_crop_def py_truediv_def Let_def resize_newsize_def resizer_def)

lemma adapt_media_crop_size:
  assumes "0 < cw" "0 < ch" "0 < tw" "0 < th" and "clip_size c = (cw, ch)"
  shows "\<exists>c'. adapt_media_crop c (tw, th) = Inr c' \<and> clip_size c' = (tw, th)"
proof (cases "\<bar>(of_int cw :: rat) / of_int ch - of_int tw / of_int th\<bar> < 1 / 100")
  case True
  from crop_near [OF assms(2-5) True] show ?thesis .
next
  case far: False
  show ?thesis
  proof (cases "(of_int tw :: rat) / of_int th < of_int cw / of_int ch")
    case True
    from crop_wider [OF assms True far] show ?thesis .
  next
    case False
    from crop_taller [OF assms False far] show ?thesis .
  qed
qed

lemma adapt_media_stretch_size:
  assumes "0 < tw" "0 < th"
  shows "\<exists>c'. adapt_media_stretch c (tw, th) = Inr c' \<and> clip_size c' = (tw, th)"
  using assms by (simp add: adapt_media_stretch_def resize_newsize_def resizer_def)

text \<open>In fit mode the composition has the target size whenever the scaled clip exists.\<close>

lemma adapt_media_fit_size:
  assumes "adapt_media_fit c (tw, th) = Inr c'"
  shows "clip_size c' = (tw, th)"
  using assms
  by (auto simp: adapt_media_fit_def Let_def CompositeVideoClip_def
      split: prod.splits sum.splits if_splits)

text \<open>
  What holds of \<^verbatim>\<open>adapt_media_to_size\<close> for all positive sizes: crop and stretch return
  a clip of exactly the target size, fit returns a clip of exactly the target size unless
  the media library raises, and a mode outside of \<^verbatim>\<open>FIT_MODES\<close> raises \<^verbatim>\<open>ValueError\<close>.
\<close>

lemma adapt_media_to_size_crop_stretch:
  assumes "0 < cw" "0 < ch" "0 < tw" "0 < th" and "clip_size c = (cw, ch)"
    and "fit_mode = ''crop'' \<or> fit_mode = ''stretch''"
  shows "\<exists>c'. adapt_media_to_size c (tw, th) fit_mode = Inr c' \<and> clip_size c' = (tw, th)"
  using assms adapt_media_crop_size [OF assms(1-5)] adapt_media_stretch_size [OF assms(3,4)]
  by (auto simp: adapt_media_to_size_def FIT_MODES_def)

lemma adapt_media_to_size_fit:
  assumes "adapt_media_to_size c (tw, th) ''fit'' = Inr c'"
  shows "clip_size c' = (tw, th)"
  using assms adapt_media_fit_size
  by (simp add: adapt_media_to_size_def FIT_MODES_def)

lemma adapt_media_to_size_invalid:
  assumes "fit_mode \<notin> {''crop'', ''fit'', ''stretch''}"
  shows "adapt_media_to_size c target_size fit_mode = Inl ValueError"
  using assms by (simp add: adapt_media_to_size_def FIT_MODES_def)

text \<open>
  Claim C2 (every source size, every target size and each of the three fit modes give a
  clip of exactly the target size). It fails in fit mode for a source whose aspect ratio
  is so extreme that the scaled side truncates to zero: a 5000 x 4 image on the
  1080 x 1920 canvas is scaled to height \<open>int(4 * 1080 / 5000) = 0\<close>, the resize raises
  inside the media library and no clip is returned.
\<close>

theorem adapt_media_fit_extreme_ratio:
  "adapt_media_to_size \<lparr>clip_size = (5000, 4), clip_start = 0, clip_duration = 3\<rparr>
     (1080, 1920) ''fit'' = Inl MediaError"
  by code_simp

section \<open>Transitions: results\<close>











text \<open>
  Claim C4, as stated (for 0 segments and for 1 segment \<^verbatim>\<open>apply_transitions_to_clips\<close>
  returns the segments unchanged and does not fail), fails for the empty list: the function
  raises \<^verbatim>\<open>ValueError\<close>, as its docstring announces.
\<close>

theorem apply_transitions_to_clips_empty_raises:
  "apply_transitions_to_clips [] ''fade'' (1 / 2) = Inl ValueError"
  by simp

text \<open>
  Claim C4, amended. For a list of exactly one segment \<^verbatim>\<open>apply_transitions_to_clips\<close>
  returns that segment unchanged, with no transition applied and without failing, whatever
  the transition type and duration are (they are not even validated); for the empty list it
  raises \<^verbatim>\<open>ValueError\<close>.
\<close>

theorem apply_transitions_to_clips_single:
  "apply_transitions_to_clips [c] transition_type d = Inr c \<and>
   apply_transitions_to_clips [] transition_type d = Inl ValueError"
  by simp

section \<open>Audio mixing: results\<close>

lemma bgm_validated:
  assumes "0 \<le> vol" "vol \<le> 1" "0 \<le> fin" "fin \<le> 5" "0 \<le> fout" "fout \<le> 5"
  shows "validate_bgm_volume vol = Inr vol" "validate_bgm_fade_in fin = Inr fin"
    "validate_bgm_fade_out fout = Inr fout"
  using assms
  by (simp_all add: validate_bgm_volume_def validate_bgm_fade_in_def validate_bgm_fade_out_def
      BGM_VOLUME_MIN_def BGM_VOLUME_MAX_def BGM_FADE_IN_MIN_def BGM_FADE_IN_MAX_def
      BGM_FADE_OUT_MIN_def BGM_FADE_OUT_MAX_def)

lemma audio_loop_duration:
  assumes "0 < audio_duration a" and "0 \<le> d"
  shows "\<exists>a'. audio_loop a d = Inr a' \<and> audio_duration a' = d"
proof -
  have "0 \<le> d / audio_duration a"
    using assms by simp
  then have "0 \<le> py_int (d / audio_duration a)"
    by (simp add: py_int_def)
  then show ?thesis
    using assms by (simp add: audio_loop_def py_truediv_def Let_def)
qed

lemma subclip_duration:
  assumes "0 \<le> audio_duration a" and "0 \<le> d"
  shows "\<exists>a'. subclip a 0 d = Inr a' \<and> audio_duration a' = d"
  using assms by (simp add: subclip_def Let_def)

lemma fade_effects_duration:
  assumes "validate_bgm_fade_in fin = Inr fin" "validate_bgm_fade_out fout = Inr fout"
  shows "\<exists>a'. apply_bgm_fade_effects a fin fout = Inr a' \<and> audio_duration a' = audio_duration a"
  using assms
  by (simp add: apply_bgm_fade_effects_def Let_def audio_fadein_def audio_fadeout_def)

lemma mix_bgm_duration:
  assumes v: "validate_bgm_fade_in fin = Inr fin" "validate_bgm_fade_out fout = Inr fout"
    and b: "0 < audio_duration b" and t: "0 \<le> t"
  shows "\<exists>a. mix_bgm b t vol fin fout = Inr a \<and> audio_duration a = t"
proof -
  have "\<exists>b1. (if audio_duration b < t then audio_loop b t
              else if audio_duration b > t then subclip b 0 t else Inr b) = Inr b1 \<and>
             audio_duration b1 = t"
  proof -
    have "0 \<le> audio_duration b"
      using b by simp
    from subclip_duration [OF this t] audio_loop_duration [OF b t] show ?thesis
      by (cases "audio_duration b < t"; cases "audio_duration b > t") simp_all
  qed
  then obtain b1 where b1: "(if audio_duration b < t then audio_loop b t
              else if audio_duration b > t then subclip b 0 t else Inr b) = Inr b1"
      "audio_duration b1 = t"
    by blast
  from fade_effects_duration [OF v, of "volumex b1 vol"]
  obtain a where "apply_bgm_fade_effects (volumex b1 vol) fin fout = Inr a"
    "audio_duration a = audio_duration (volumex b1 vol)"
    by blast
  then show ?thesis
    using b1 by (simp add: mix_bgm_def volumex_def)
qed

text \<open>
  Claim C6. For every BGM volume in \<open>[0, 1]\<close> and fade-in and fade-out durations in
  \<open>[0, 5]\<close>, \<^verbatim>\<open>mix_audio_tracks\<close> called with no narration, a BGM track (of positive
  length) and an explicit target duration (a non-negative number of seconds) returns an
  audio track whose duration is exactly the target, the BGM being looped when shorter and
  cut when longer; with neither narration nor BGM it returns \<^verbatim>\<open>None\<close>.
\<close>

theorem mix_audio_tracks_bgm_only:
  assumes "0 \<le> bgm_volume" "bgm_volume \<le> 1"
    and "0 \<le> bgm_fade_in" "bgm_fade_in \<le> 5"
    and "0 \<le> bgm_fade_out" "bgm_fade_out \<le> 5"
    and "0 < audio_duration bgm" and "0 \<le> target"
  shows "(\<exists>a. mix_audio_tracks None (Some bgm) bgm_volume bgm_fade_in bgm_fade_out (Some target)
              = Inr (Some a) \<and> audio_duration a = target) \<and>
         mix_audio_tracks None None bgm_volume bgm_fade_in bgm_fade_out any_target = Inr None"
proof -
  note v = bgm_validated [OF assms(1-6)]
  from mix_bgm_duration [OF v(2,3) assms(7,8), of bgm_volume]
  obtain a where a: "mix_bgm bgm target bgm_volume bgm_fade_in bgm_fade_out = Inr a"
    "audio_duration a = target"
    by blast
  have "mix_audio_tracks None (Some bgm) bgm_volume bgm_fade_in bgm_fade_out (Some target)
      = Inr (Some a)"
    using v a(1) by (simp add: mix_audio_tracks_def)
  moreover have "mix_audio_tracks None None bgm_volume bgm_fade_in bgm_fade_out any_target
      = Inr None"
    using v by (simp add: mix_audio_tracks_def split: option.splits)
  ultimately show ?thesis
    using a(2) by simp
qed

theorem mix_audio_tracks_bgm_only_witness:
  "(\<exists>a. mix_audio_tracks None
          (Some \<lparr>audio_start = 0, audio_duration = 4, audio_gain = 1, audio_fade_in = 0,
                 audio_fade_out = 0\<rparr>) (3 / 10) 1 2 (Some 10) = Inr (Some a) \<and>
        audio_duration a = 10) \<and>
   mix_audio_tracks None None (3 / 10) 1 2 (Some 10) = Inr None"
  using mix_audio_tracks_bgm_only
    [of "3 / 10" 1 2
        "\<lparr>audio_start = 0, audio_duration = 4, audio_gain = 1, audio_fade_in = 0,
          audio_fade_out = 0\<rparr>" 10 "Some 10"]
  by simp

section \<open>Precise subtitles: results\<close>






section \<open>Styling parameters: results\<close>

lemma styling_fit_mode:
  "st_fit_mode (styling_params config) =
     (case cfg_fit_mode config of
        None \<Rightarrow> ''crop''
      | Some m \<Rightarrow> if m \<in> set FIT_MODES then m else ''crop'')"
  by (simp add: styling_params_def Let_def get_or_def split: option.splits)

lemma styling_transition_type:
  "st_transition_type (styling_params config) =
     (case cfg_transition_type config of
        None \<Rightarrow> ''fade''
      | Some t \<Rightarrow> if t \<in> set TRANSITIONS then t else ''fade'')"
  by (simp add: styling_params_def Let_def get_or_def split: option.splits)

lemma styling_transition_duration:
  "st_transition_duration (styling_params config) =
     (case cfg_transition_duration config of
        None \<Rightarrow> 1 / 2
      | Some d \<Rightarrow> if 3 / 10 \<le> d \<and> d \<le> 2 then d else 1 / 2)"
  by (simp add: styling_params_def Let_def get_or_def TRANSITION_DURATION_DEFAULT_def
      TRANSITION_DURATION_MIN_def TRANSITION_DURATION_MAX_def not_less split: option.splits)

lemma styling_effect_type:
  "st_effect_type (styling_params config) =
     (case cfg_effect_type config of
        None \<Rightarrow> Some ''none''
      | Some None \<Rightarrow> None
      | Some (Some e) \<Rightarrow> if e = [] \<or> e \<in> set EFFECT_TYPES then Some e else Some ''none'')"
  by (auto simp: styling_params_def Let_def get_or_def truthy_def split: option.splits)

lemma styling_color_filter:
  "st_color_filter (styling_params config) =
     (case cfg_color_filter config of
        None \<Rightarrow> ''none''
      | Some f \<Rightarrow> if f \<in> set COLOR_FILTERS then f else ''none'')"
  by (simp add: styling_params_def Let_def get_or_def split: option.splits)

lemma styling_adjustments:
  "st_brightness (styling_params config) =
     max (1 / 2) (min 2 (get_or (cfg_brightness config) 1)) \<and>
   st_contrast (styling_params config) =
     max (1 / 2) (min 2 (get_or (cfg_contrast config) 1)) \<and>
   st_saturation (styling_params config) =
     max 0 (min 2 (get_or (cfg_saturation config) 1))"
  by (simp add: styling_params_def Let_def BRIGHTNESS_MIN_def BRIGHTNESS_MAX_def
      CONTRAST_MIN_def CONTRAST_MAX_def SATURATION_MIN_def SATURATION_MAX_def
      BRIGHTNESS_DEFAULT_def CONTRAST_DEFAULT_def SATURATION_DEFAULT_def)

text \<open>
  Claim C10, as stated (every unrecognized \<^verbatim>\<open>effect_type\<close> is replaced by its default
  value), fails for the empty string: it is not one of \<^verbatim>\<open>EFFECT_TYPES\<close>, and the check
  \<^verbatim>\<open>if effect_type and effect_type not in EFFECT_TYPES\<close> leaves it as it is.
\<close>

theorem styling_empty_effect_type_kept:
  "[] \<notin> set EFFECT_TYPES \<and>
   st_effect_type (styling_params
     \<lparr>cfg_fit_mode = None, cfg_transition_enabled = None, cfg_transition_type = None,
      cfg_transition_duration = None, cfg_effect_type = Some (Some []),
      cfg_color_filter = None, cfg_brightness = None, cfg_contrast = None,
      cfg_saturation = None\<rparr>) = Some []"
  by (simp add: styling_effect_type EFFECT_TYPES_def)

text \<open>
  Claim C10, amended. The styling checks of \<^verbatim>\<open>create_video_from_config\<close> reject
  nothing: for every configuration (with the styling keys typed as the request schema
  types them), an unrecognized \<^verbatim>\<open>fit_mode\<close>, \<^verbatim>\<open>transition_type\<close> or \<^verbatim>\<open>color_filter\<close> is
  replaced by its default (\<^verbatim>\<open>crop\<close>, \<^verbatim>\<open>fade\<close>, \<^verbatim>\<open>none\<close>), an unrecognized non-empty
  \<^verbatim>\<open>effect_type\<close> is replaced by \<^verbatim>\<open>none\<close> while an empty or \<^verbatim>\<open>None\<close> \<^verbatim>\<open>effect_type\<close> is
  kept, a \<^verbatim>\<open>transition_duration\<close> outside of \<open>[0.3, 2.0]\<close> is replaced by 0.5, and
  brightness, contrast and saturation are clamped into \<open>[0.5, 2]\<close>, \<open>[0.5, 2]\<close> and
  \<open>[0, 2]\<close>; recognized values and values within range are kept.
\<close>

theorem styling_params_normalized:
  "(let s = styling_params config in
     st_fit_mode s \<in> set FIT_MODES \<and>
     st_transition_type s \<in> set TRANSITIONS \<and>
     st_color_filter s \<in> set COLOR_FILTERS \<and>
     (st_effect_type s = None \<or> st_effect_type s = Some [] \<or>
        st_effect_type s \<in> Some ` set EFFECT_TYPES) \<and>
     TRANSITION_DURATION_MIN \<le> st_transition_duration s \<and>
     st_transition_duration s \<le> TRANSITION_DURATION_MAX \<and>
     BRIGHTNESS_MIN \<le> st_brightness s \<and> st_brightness s \<le> BRIGHTNESS_MAX \<and>
     CONTRAST_MIN \<le> st_contrast s \<and> st_contrast s \<le> CONTRAST_MAX \<and>
     SATURATION_MIN \<le> st_saturation s \<and> st_saturation s \<le> SATURATION_MAX \<and>
     st_fit_mode s =
       (case cfg_fit_mode config of
          None \<Rightarrow> ''crop''
        | Some m \<Rightarrow> if m \<in> set FIT_MODES then m else ''crop'') \<and>
     st_transition_type s =
       (case cfg_transition_type config of
          None \<Rightarrow> ''fade''
        | Some t \<Rightarrow> if t \<in> set TRANSITIONS then t else ''fade'') \<and>
     st_color_filter s =
       (case cfg_color_filter config of
          None \<Rightarrow> ''none''
        | Some f \<Rightarrow> if f \<in> set COLOR_FILTERS then f else ''none'') \<and>
     st_effect_type s =
       (case cfg_effect_type config of
          None \<Rightarrow> Some ''none''
        | Some None \<Rightarrow> None
        | Some (Some e) \<Rightarrow>
            if e = [] \<or> e \<in> set EFFECT_TYPES then Some e else Some ''none'') \<and>
     st_transition_duration s =
       (case cfg_transition_duration config of
          None \<Rightarrow> 1 / 2
        | Some d \<Rightarrow> if 3 / 10 \<le> d \<and> d \<le> 2 then d else 1 / 2) \<and>
     st_brightness s = max (1 / 2) (min 2 (get_or (cfg_brightness config) 1)) \<and>
     st_contrast s = max (1 / 2) (min 2 (get_or (cfg_contrast config) 1)) \<and>
     st_saturation s = max 0 (min 2 (get_or (cfg_saturation config) 1)))"
  unfolding Let_def
proof (intro conjI)
  show "st_fit_mode (styling_params config) \<in> set FIT_MODES"
    by (simp add: styling_fit_mode FIT_MODES_def split: option.splits)
  show "st_transition_type (styling_params config) \<in> set TRANSITIONS"
    by (simp add: styling_transition_type TRANSITIONS_def split: option.splits)
  show "st_color_filter (styling_params config) \<in> set COLOR_FILTERS"
    by (simp add: styling_color_filter COLOR_FILTERS_def split: option.splits)
  show "st_effect_type (styling_params config) = None \<or>
        st_effect_type (styling_params config) = Some [] \<or>
        st_effect_type (styling_params config) \<in> Some ` set EFFECT_TYPES"
    by (simp add: styling_effect_type EFFECT_TYPES_def split: option.splits)
  show "TRANSITION_DURATION_MIN \<le> st_transition_duration (styling_params config)"
    by (simp add: styling_transition_duration TRANSITION_DURATION_MIN_def split: option.splits)
  show "st_transition_duration (styling_params config) \<le> TRANSITION_DURATION_MAX"
    by (simp add: styling_transition_duration TRANSITION_DURATION_MAX_def split: option.splits)
  show "BRIGHTNESS_MIN \<le> st_brightness (styling_params config)"
    by (simp add: styling_adjustments BRIGHTNESS_MIN_def)
  show "st_brightness (styling_params config) \<le> BRIGHTNESS_MAX"
    by (simp add: styling_adjustments BRIGHTNESS_MAX_def)
  show "CONTRAST_MIN \<le> st_contrast (styling_params config)"
    by (simp add: styling_adjustments CONTRAST_MIN_def)
  show "st_contrast (styling_params config) \<le> CONTRAST_MAX"
    by (simp add: styling_adjustments CONTRAST_MAX_def)
  show "SATURATION_MIN \<le> st_saturation (styling_params config)"
    by (simp add: styling_adjustments SATURATION_MIN_def)
  show "st_saturation (styling_params config) \<le> SATURATION_MAX"
    by (simp add: styling_adjustments SATURATION_MAX_def)
qed (simp_all only: styling_fit_mode styling_transition_type styling_color_filter
    styling_effect_type styling_transition_duration styling_adjustments)

theorem styling_params_normalized_witness:
  "styling_params
     \<lparr>cfg_fit_mode = Some ''zoom'', cfg_transition_enabled = None,
      cfg_transition_type = Some ''spin'', cfg_transition_duration = Some 5,
      cfg_effect_type = Some (Some ''wobble''), cfg_color_filter = Some ''sepia'',
      cfg_brightness = Some 3, cfg_contrast = Some (1 / 10), cfg_saturation = Some (- 1)\<rparr>
   = \<lparr>st_fit_mode = ''crop'', st_transition_enabled = True, st_transition_type = ''fade'',
      st_transition_duration = 1 / 2, st_effect_type = Some ''none'',
      st_color_filter = ''none'', st_brightness = 2, st_contrast = 1 / 2,
      st_saturation = 0\<rparr>"
proof -
  define config where "config =
     \<lparr>cfg_fit_mode = Some ''zoom'', cfg_transition_enabled = None,
      cfg_transition_type = Some ''spin'', cfg_transition_duration = Some 5,
      cfg_effect_type = Some (Some ''wobble''), cfg_color_filter = Some ''sepia'',
      cfg_brightness = Some 3, cfg_contrast = Some (1 / 10), cfg_saturation = Some (- 1)\<rparr>"
  have e: "st_transition_enabled (styling_params config) = True"
    by (simp add: styling_params_def Let_def get_or_def config_def)
  have c: "cfg_fit_mode config = Some ''zoom''" "cfg_transition_type config = Some ''spin''"
    "cfg_transition_duration config = Some 5" "cfg_effect_type config = Some (Some ''wobble'')"
    "cfg_color_filter config = Some ''sepia''" "cfg_brightness config = Some 3"
    "cfg_contrast config = Some (1 / 10)" "cfg_saturation config = Some (- 1)"
    by (simp_all add: config_def)
  from styling_params_normalized [of config]
  have "st_fit_mode (styling_params config) = ''crop'' \<and>
        st_transition_type (styling_params config) = ''fade'' \<and>
        st_color_filter (styling_params config) = ''none'' \<and>
        st_effect_type (styling_params config) = Some ''none'' \<and>
        st_transition_duration (styling_params config) = 1 / 2 \<and>
        st_brightness (styling_params config) = 2 \<and>
        st_contrast (styling_params config) = 1 / 2 \<and>
        st_saturation (styling_params config) = 0"
    unfolding Let_def c
    by (simp add: FIT_MODES_def TRANSITIONS_def COLOR_FILTERS_def EFFECT_TYPES_def get_or_def)
  with e show ?thesis
    unfolding config_def [symmetric] by (cases "styling_params config") simp
qed

section \<open>Soft failure of transforms: results\<close>

lemma concatenate_nonempty:
  "video_clips \<noteq> [] \<Longrightarrow> \<exists>c. concatenate_videoclips video_clips = Inr c"
  by (cases video_clips) simp_all

lemma compose_clips_total:
  "\<exists>c. compose_clips transitions video_clips sz transition_enabled transition_type
          transition_duration total_duration = Inr c"
proof (cases "video_clips = []")
  case True
  then show ?thesis by (simp add: compose_clips_def)
next
  case False
  from concatenate_nonempty [OF this] show ?thesis
    by (auto simp: compose_clips_def split: sum.splits)
qed

lemma compose_clips_fallback:
  assumes "2 \<le> length video_clips"
    and "transitions video_clips transition_type transition_duration = Inl err"
  shows "compose_clips transitions video_clips sz transition_enabled transition_type
          transition_duration total_duration = concatenate_videoclips video_clips"
  using assms by (auto simp: compose_clips_def)

text \<open>
  Claim C9. If applying the motion effect, the colour filter, the brightness, contrast and
  saturation adjustment or the transitions raises an exception during a render, the render
  does not abort: the segment is used in its untransformed form (for the transitions, the
  segments are concatenated without a transition), and the composition step always yields
  a clip. This holds whatever the transforms are and however they fail.
\<close>

theorem transform_failure_soft:
  "(apply_video_effect effect_impl clip0 e seg_duration = Inl err1 \<longrightarrow>
      segment_effect effect_impl (Some e) seg_duration clip0 = clip0) \<and>
   (apply_color_filter filter_impl clip0 f = Inl err2 \<longrightarrow>
      segment_filter filter_impl f clip0 = clip0) \<and>
   (apply_video_adjustments adjust_impl clip0 b c s = Inl err3 \<longrightarrow>
      segment_adjust adjust_impl b c s clip0 = clip0) \<and>
   (2 \<le> length video_clips \<and>
    transitions video_clips transition_type transition_duration = Inl err4 \<longrightarrow>
      compose_clips transitions video_clips sz transition_enabled transition_type
        transition_duration total_duration = concatenate_videoclips video_clips \<and>
      (\<exists>c. concatenate_videoclips video_clips = Inr c)) \<and>
   (\<exists>c. compose_clips transitions video_clips sz transition_enabled transition_type
           transition_duration total_duration = Inr c)"
proof (intro conjI impI)
  assume "apply_video_effect effect_impl clip0 e seg_duration = Inl err1"
  then show "segment_effect effect_impl (Some e) seg_duration clip0 = clip0"
    by (simp add: segment_effect_def)
next
  assume "apply_color_filter filter_impl clip0 f = Inl err2"
  then show "segment_filter filter_impl f clip0 = clip0"
    by (simp add: segment_filter_def)
next
  assume "apply_video_adjustments adjust_impl clip0 b c s = Inl err3"
  then show "segment_adjust adjust_impl b c s clip0 = clip0"
    by (simp add: segment_adjust_def)
next
  assume h: "2 \<le> length video_clips \<and>
    transitions video_clips transition_type transition_duration = Inl err4"
  then show "compose_clips transitions video_clips sz transition_enabled transition_type
        transition_duration total_duration = concatenate_videoclips video_clips"
    using compose_clips_fallback by blast
  from h have "video_clips \<noteq> []" by auto
  then show "\<exists>c. concatenate_videoclips video_clips = Inr c"
    by (rule concatenate_nonempty)
next
  show "\<exists>c. compose_clips transitions video_clips sz transition_enabled transition_type
           transition_duration total_duration = Inr c"
    by (rule compose_clips_total)
qed

theorem transform_failure_soft_witness:
  "apply_video_effect (\<lambda>_ _ _. Inl MediaError)
     \<lparr>clip_size = (1080, 1920), clip_start = 0, clip_duration = 3\<rparr> ''shake'' 3
     = Inl MediaError \<and>
   segment_effect (\<lambda>_ _ _. Inl MediaError) (Some ''shake'') 3
     \<lparr>clip_size = (1080, 1920), clip_start = 0, clip_duration = 3\<rparr>
     = \<lparr>clip_size = (1080, 1920), clip_start = 0, clip_duration = 3\<rparr> \<and>
   apply_color_filter (\<lambda>_ _. Inl MediaError)
     \<lparr>clip_size = (1080, 1920), clip_start = 0, clip_duration = 3\<rparr> ''warm''
     = Inl MediaError \<and>
   segment_filter (\<lambda>_ _. Inl MediaError) ''warm''
     \<lparr>clip_size = (1080, 1920), clip_start = 0, clip_duration = 3\<rparr>
     = \<lparr>clip_size = (1080, 1920), clip_start = 0, clip_duration = 3\<rparr> \<and>
   apply_video_adjustments (\<lambda>_ _ _ _. Inl MediaError)
     \<lparr>clip_size = (1080, 1920), clip_start = 0, clip_duration = 3\<rparr> (3 / 2) 1 1
     = Inl MediaError \<and>
   segment_adjust (\<lambda>_ _ _ _. Inl MediaError) (3 / 2) 1 1
     \<lparr>clip_size = (1080, 1920), clip_start = 0, clip_duration = 3\<rparr>
     = \<lparr>clip_size = (1080, 1920), clip_start = 0, clip_duration = 3\<rparr> \<and>
   compose_clips (\<lambda>_ _ _. Inl MediaError)
     [\<lparr>clip_size = (1080, 1920), clip_start = 0, clip_duration = 3\<rparr>,
      \<lparr>clip_size = (1080, 1920), clip_start = 0, clip_duration = 3\<rparr>]
     (1080, 1920) True ''fade'' (1 / 2) (11 / 2)
     = Inr \<lparr>clip_size = (1080, 1920), clip_start = 0, clip_duration = 6\<rparr>"
  using transform_failure_soft
    [of "\<lambda>_ _ _. Inl MediaError"
        "\<lparr>clip_size = (1080, 1920), clip_start = 0, clip_duration = 3\<rparr>" "''shake''" 3
        MediaError
        "\<lambda>_ _. Inl MediaError" "''warm''" MediaError
        "\<lambda>_ _ _ _. Inl MediaError" "3 / 2" 1 1 MediaError
        "[\<lparr>clip_size = (1080, 1920), clip_start = 0, clip_duration = 3\<rparr>,
          \<lparr>clip_size = (1080, 1920), clip_start = 0, clip_duration = 3\<rparr>]"
        "\<lambda>_ _ _. Inl MediaError" "''fade''" "1 / 2" MediaError
        "(1080, 1920)" True "11 / 2"]
  by (simp add: apply_video_effect_def apply_color_filter_def apply_video_adjustments_def
      validate_effect_type_def validate_color_filter_def validate_brightness_def
      validate_contrast_def validate_saturation_def EFFECT_TYPES_def COLOR_FILTERS_def
      BRIGHTNESS_MIN_def BRIGHTNESS_MAX_def CONTRAST_MIN_def CONTRAST_MAX_def
      SATURATION_MIN_def SATURATION_MAX_def)
end
